theory Spec2Isabelle
  imports Main "HOL-Library.Sublist"
begin

section \<open>JavaScript values and text\<close>

text \<open>
  The values the two tools handle are command-line strings, prompt answers and the
  fields of \<^verbatim>\<open>metadata.json\<close>. A field read from JSON is a scalar or is absent
  (\<open>JUndefined\<close>); array and object values of a field are outside the model. A number is
  carried by its \<^verbatim>\<open>Number.prototype.toString\<close> text, the only thing either program
  observes of it. Strings are byte strings (the UTF-8 text as it is on the command
  line and on disk).
\<close>

datatype jsval = JUndefined | JNull | JBool bool | JNum string | JStr string

text \<open>\<^verbatim>\<open>`${v}`\<close>: the conversion a template literal applies to an interpolated value.\<close>

fun toString :: "jsval \<Rightarrow> string" where
  "toString JUndefined = ''undefined''"
| "toString JNull = ''null''"
| "toString (JBool b) = (if b then ''true'' else ''false'')"
| "toString (JNum r) = r"
| "toString (JStr s) = s"

text \<open>Truthiness of an optional string: \<^verbatim>\<open>undefined\<close> and \<^verbatim>\<open>""\<close> are falsy.\<close>

fun truthy :: "string option \<Rightarrow> bool" where
  "truthy None = False"
| "truthy (Some s) = (s \<noteq> [])"

fun app_hd :: "string \<Rightarrow> string list \<Rightarrow> string list" where
  "app_hd s [] = [s]"
| "app_hd s (l # ls) = (s @ l) # ls"

text \<open>\<^verbatim>\<open>s.split(sep)\<close> for a one-character separator.\<close>

fun split_on :: "char \<Rightarrow> string \<Rightarrow> string list" where
  "split_on sep [] = [[]]"
| "split_on sep (c # cs) =
     (if c = sep then [] # split_on sep cs else app_hd [c] (split_on sep cs))"

text \<open>\<^verbatim>\<open>xs.join(sep)\<close>.\<close>

fun join_with :: "string \<Rightarrow> string list \<Rightarrow> string" where
  "join_with sep [] = []"
| "join_with sep [x] = x"
| "join_with sep (x # y # ys) = x @ sep @ join_with sep (y # ys)"

section \<open>Paths\<close>

subsection \<open>Node's \<^verbatim>\<open>path.join\<close> (POSIX)\<close>

text \<open>
  \<^verbatim>\<open>normalizeString\<close> walks the segments between slashes: empty segments and \<^verbatim>\<open>.\<close> are
  dropped, \<^verbatim>\<open>..\<close> removes the segment before it (or is kept, for a relative path that
  climbs above its start). \<open>res\<close> holds the segments kept so far, last one first.
\<close>

fun normalizeString :: "string list \<Rightarrow> bool \<Rightarrow> string list \<Rightarrow> string list" where
  "normalizeString [] allowAboveRoot res = res"
| "normalizeString (seg # segs) allowAboveRoot res =
     normalizeString segs allowAboveRoot
       (if seg = [] \<or> seg = ''.'' then res
        else if seg = ''..'' then
          (case res of
             [] \<Rightarrow> if allowAboveRoot then [''..''] else []
           | r # rs \<Rightarrow> if r = ''..'' then (if allowAboveRoot then ''..'' # res else res) else rs)
        else seg # res)"

definition normalize :: "string \<Rightarrow> string" where
  "normalize path =
     (if path = [] then ''.''
      else
        let isAbsolute = (hd path = CHR ''/'');
            trailingSeparator = (last path = CHR ''/'');
            res = join_with ''/''
                    (rev (normalizeString (split_on CHR ''/'' path) (\<not> isAbsolute) []))
        in if res = [] then (if isAbsolute then ''/'' else if trailingSeparator then ''./'' else ''.'')
           else (if isAbsolute then ''/'' else []) @ res @ (if trailingSeparator then ''/'' else []))"

definition path_join :: "string list \<Rightarrow> string" where
  "path_join args =
     (let joined = filter (\<lambda>arg. arg \<noteq> []) args
      in if joined = [] then ''.'' else normalize (join_with ''/'' joined))"

subsection \<open>Where a path leads\<close>

text \<open>
  The operating system resolves a path segment by segment: an empty segment and \<^verbatim>\<open>.\<close>
  are skipped, \<^verbatim>\<open>..\<close> steps back to the parent (the root is its own parent), and a
  trailing slash does not change where the path leads. The file store below records no
  directories, so the resolution is lexical: the directories that a path names on its
  way are taken to exist and not to be links. An absolute path leads to a slash
  followed by the remaining segments, a relative one to the remaining segments alone
  (from the working directory, which \<^verbatim>\<open>..\<close> may leave).
\<close>

definition canonical :: "string \<Rightarrow> string" where
  "canonical path =
     (let isAbsolute = (path \<noteq> [] \<and> hd path = CHR ''/'');
          segments = rev (normalizeString (split_on CHR ''/'' path) (\<not> isAbsolute) [])
      in (if isAbsolute then ''/'' else []) @ join_with ''/'' segments)"

text \<open>
  The empty path and a path whose last segment is empty (a trailing slash), \<^verbatim>\<open>.\<close> or
  \<^verbatim>\<open>..\<close> can only name a directory.
\<close>

definition names_directory :: "string \<Rightarrow> bool" where
  "names_directory path = (last (split_on CHR ''/'' path) \<in> {[], ''.'', ''..''})"

section \<open>Processes, console and file system\<close>

text \<open>
  A run either returns, throws (a rejected promise, a failed \<^verbatim>\<open>execSync\<close>) or ends the
  process with \<^verbatim>\<open>process.exit(n)\<close>, which no \<^verbatim>\<open>catch\<close> intercepts.
\<close>

datatype js_error = Error string

fun message :: "js_error \<Rightarrow> string" where
  "message (Error m) = m"

datatype 'a result = Return 'a | Throw js_error | Exit nat

text \<open>An argument of \<^verbatim>\<open>console.log\<close> / \<^verbatim>\<open>console.error\<close>: a string or an error object.\<close>

datatype arg = Str string | Err js_error

text \<open>
  The file store is keyed by the place a path leads to (\<open>canonical\<close>); a place holds a
  regular file or a symbolic link (with the place the link leads to). Directories are
  implicit: a directory holds what is stored below it, and \<^verbatim>\<open>outputFile\<close>, \<^verbatim>\<open>writeJson\<close>
  and \<^verbatim>\<open>ensureSymlink\<close> create missing parents.
\<close>

datatype node = File string | Symlink string

definition is_file :: "node option \<Rightarrow> bool" where
  "is_file n = (case n of Some (File c) \<Rightarrow> True | _ \<Rightarrow> False)"

definition is_symlink :: "node option \<Rightarrow> bool" where
  "is_symlink n = (case n of Some (Symlink t) \<Rightarrow> True | _ \<Rightarrow> False)"

record world =
  files :: "string \<Rightarrow> node option"
  stdout :: "arg list list"
  stderr :: "arg list list"
  spawned :: "(string \<times> string option) list"

text \<open>
  What a run cannot decide by itself is read from the environment: whether an external
  command fails (and with which message), whether the operating system refuses a
  file-system call, what a JSON file parses to, what a directory lists, and what the
  operator types at a prompt.
\<close>

datatype fs_call = OutputFile | WriteJson | ReadJson | EnsureSymlink | Remove | Readdir

text \<open>
  The result of \<^verbatim>\<open>JSON.parse\<close> as far as destructuring sees it: \<^verbatim>\<open>null\<close>, an
  object with its members, or any other value (whose properties all read \<^verbatim>\<open>undefined\<close>).
\<close>

datatype document = DNull | DObject "(string \<times> jsval) list" | DOther

record env =
  exec_error :: "string \<Rightarrow> string option"
  fs_error :: "fs_call \<Rightarrow> string \<Rightarrow> string option"
  json_file :: "string \<Rightarrow> document"
  dir_entries :: "string \<Rightarrow> string list"
  typed :: "string \<Rightarrow> string"
  confirm_typed :: "string \<Rightarrow> bool option"

type_synonym 'a io = "world \<Rightarrow> 'a result \<times> world"

definition return_io :: "'a \<Rightarrow> 'a io" where
  "return_io a = (\<lambda>w. (Return a, w))"

text \<open>Sequencing (\<^verbatim>\<open>await m; ...\<close>): a throw or an exit skips the rest.\<close>

definition bind_io :: "'a io \<Rightarrow> ('a \<Rightarrow> 'b io) \<Rightarrow> 'b io" where
  "bind_io m f = (\<lambda>w. case m w of
       (Return a, w') \<Rightarrow> f a w'
     | (Throw e, w') \<Rightarrow> (Throw e, w')
     | (Exit n, w') \<Rightarrow> (Exit n, w'))"

text \<open>\<^verbatim>\<open>try { m } catch (e) { h(e) }\<close>.\<close>

definition try_catch :: "'a io \<Rightarrow> (js_error \<Rightarrow> 'a io) \<Rightarrow> 'a io" where
  "try_catch m h = (\<lambda>w. case m w of
       (Throw e, w') \<Rightarrow> h e w'
     | (Return a, w') \<Rightarrow> (Return a, w')
     | (Exit n, w') \<Rightarrow> (Exit n, w'))"

definition console_log :: "arg list \<Rightarrow> unit io" where
  "console_log args = (\<lambda>w. (Return (), w\<lparr>stdout := stdout w @ [args]\<rparr>))"

definition console_error :: "arg list \<Rightarrow> unit io" where
  "console_error args = (\<lambda>w. (Return (), w\<lparr>stderr := stderr w @ [args]\<rparr>))"

definition process_exit :: "nat \<Rightarrow> 'a io" where
  "process_exit n = (\<lambda>w. (Exit n, w))"

text \<open>\<^verbatim>\<open>execSync(command, { cwd })\<close>: the command is run; a non-zero status throws.\<close>

definition execSync :: "env \<Rightarrow> string \<Rightarrow> string option \<Rightarrow> unit io" where
  "execSync env command cwd = (\<lambda>w.
     let w' = w\<lparr>spawned := spawned w @ [(command, cwd)]\<rparr>
     in case exec_error env command of
          None \<Rightarrow> (Return (), w')
        | Some msg \<Rightarrow> (Throw (Error msg), w'))"

text \<open>\<^verbatim>\<open>inquirer\<close> questions of type \<^verbatim>\<open>input\<close> and \<^verbatim>\<open>confirm\<close>: empty input takes the default.\<close>

definition prompt_input :: "env \<Rightarrow> string \<Rightarrow> string option \<Rightarrow> string" where
  "prompt_input env name dflt =
     (if typed env name = [] then (case dflt of Some d \<Rightarrow> d | None \<Rightarrow> []) else typed env name)"

definition prompt_confirm :: "env \<Rightarrow> string \<Rightarrow> bool \<Rightarrow> bool" where
  "prompt_confirm env name dflt = (case confirm_typed env name of Some b \<Rightarrow> b | None \<Rightarrow> dflt)"

subsection \<open>fs-extra\<close>

text \<open>Following symbolic links, at most \<open>link_limit\<close> of them (\<^verbatim>\<open>ELOOP\<close> beyond).\<close>

definition link_limit :: nat where
  "link_limit = 40"

fun resolve :: "nat \<Rightarrow> (string \<Rightarrow> node option) \<Rightarrow> string \<Rightarrow> string option" where
  "resolve 0 fs p = (case fs p of Some (Symlink t) \<Rightarrow> None | _ \<Rightarrow> Some p)"
| "resolve (Suc n) fs p = (case fs p of Some (Symlink t) \<Rightarrow> resolve n fs t | _ \<Rightarrow> Some p)"

text \<open>\<^verbatim>\<open>fs.pathExists\<close>, \<^verbatim>\<open>fs.stat\<close>: something is stored where the links lead.\<close>

definition path_exists :: "(string \<Rightarrow> node option) \<Rightarrow> string \<Rightarrow> bool" where
  "path_exists fs p =
     (case resolve link_limit fs p of None \<Rightarrow> False | Some q \<Rightarrow> fs q \<noteq> None)"

text \<open>The content of the regular file a path leads to, links followed.\<close>

definition read_file :: "(string \<Rightarrow> node option) \<Rightarrow> string \<Rightarrow> string option" where
  "read_file fs path =
     (if names_directory path then None
      else case resolve link_limit fs (canonical path) of
             None \<Rightarrow> None
           | Some q \<Rightarrow> (case fs q of Some (File d) \<Rightarrow> Some d | _ \<Rightarrow> None))"

text \<open>
  Writing a file replaces its content; through a symbolic link the write lands where
  the link leads. A path that can only name a directory cannot be written
  (\<^verbatim>\<open>EISDIR\<close>).
\<close>

definition write_file :: "env \<Rightarrow> fs_call \<Rightarrow> string \<Rightarrow> string \<Rightarrow> unit io" where
  "write_file env call file data = (\<lambda>w.
     case fs_error env call file of
       Some msg \<Rightarrow> (Throw (Error msg), w)
     | None \<Rightarrow>
        if names_directory file
        then (Throw (Error ''EISDIR: illegal operation on a directory''), w)
        else (case resolve link_limit (files w) (canonical file) of
                None \<Rightarrow> (Throw (Error ''ELOOP: too many symbolic links encountered''), w)
              | Some q \<Rightarrow> (Return (), w\<lparr>files := (files w)(q \<mapsto> File data)\<rparr>)))"

definition outputFile :: "env \<Rightarrow> string \<Rightarrow> string \<Rightarrow> unit io" where
  "outputFile env file data = write_file env OutputFile file data"

text \<open>
  \<^verbatim>\<open>ensureSymlink(srcpath, dstpath)\<close> makes sure that a link exists and never replaces
  what is at \<^verbatim>\<open>dstpath\<close>. In every release of the library a dangling link at
  \<^verbatim>\<open>dstpath\<close> makes the call fail, and a link that leads to the same file as
  \<^verbatim>\<open>srcpath\<close> is success. Any other entry at \<^verbatim>\<open>dstpath\<close> stays as it is, and the call
  either returns silently (the releases that test \<^verbatim>\<open>pathExists(dstpath)\<close>) or fails
  with \<^verbatim>\<open>EEXIST\<close> (the releases that go on to \<^verbatim>\<open>fs.symlink\<close>), which the environment
  decides. Where nothing is stored the link is created, provided \<^verbatim>\<open>srcpath\<close> exists.
\<close>

definition ensureSymlink :: "env \<Rightarrow> string \<Rightarrow> string \<Rightarrow> unit io" where
  "ensureSymlink env srcpath dstpath = (\<lambda>w.
     let src = canonical srcpath; dst = canonical dstpath; fs = files w in
     if is_symlink (fs dst) \<and> \<not> path_exists fs dst
       then (Throw (Error ''EEXIST: file already exists, symlink''), w)
     else if is_symlink (fs dst) \<and> path_exists fs src \<and>
             resolve link_limit fs dst = resolve link_limit fs src
       then (Return (), w)
     else case fs_error env EnsureSymlink dstpath of
            Some msg \<Rightarrow> (Throw (Error msg), w)
          | None \<Rightarrow>
             if fs dst \<noteq> None \<or> names_directory dstpath then (Return (), w)
             else if fs src = None
               then (Throw (Error ''absolute srcpath does not exist''), w)
             else (Return (), w\<lparr>files := fs(dst \<mapsto> Symlink src)\<rparr>))"

text \<open>One place is another one or lies below it.\<close>

definition below :: "string \<Rightarrow> string \<Rightarrow> bool" where
  "below p q = (q = p \<or> (p \<noteq> [] \<and> prefix (if p = ''/'' then p else p @ ''/'') q))"

text \<open>The store without a place and everything below it.\<close>

definition removed :: "string \<Rightarrow> (string \<Rightarrow> node option) \<Rightarrow> (string \<Rightarrow> node option)" where
  "removed p fs = (\<lambda>q. if below p q then None else fs q)"



definition readJson :: "env \<Rightarrow> string \<Rightarrow> document io" where
  "readJson env file = (\<lambda>w.
     case fs_error env ReadJson file of
       Some msg \<Rightarrow> (Throw (Error msg), w)
     | None \<Rightarrow> (Return (json_file env file), w))"

definition readdir :: "env \<Rightarrow> string \<Rightarrow> string list io" where
  "readdir env dir = (\<lambda>w.
     case fs_error env Readdir dir of
       Some msg \<Rightarrow> (Throw (Error msg), w)
     | None \<Rightarrow> (Return (dir_entries env dir), w))"

subsection \<open>JSON text\<close>

text \<open>
  \<^verbatim>\<open>JSON.stringify(obj, null, 2)\<close> for an object whose members are scalars, followed by
  the final newline that \<^verbatim>\<open>writeJson\<close> appends. A member whose value is \<^verbatim>\<open>undefined\<close>
  is left out. In a string, the quote, the backslash and the control characters below
  \<^verbatim>\<open>0x20\<close> are escaped; every other byte is written as it is.
\<close>

definition hex_digit :: "nat \<Rightarrow> char" where
  "hex_digit n = (if n < 10 then char_of (48 + n) else char_of (87 + n))"

definition json_escape :: "char \<Rightarrow> string" where
  "json_escape c =
     (if c = CHR 0x22 then [CHR 0x5C, CHR 0x22]
      else if c = CHR 0x5C then [CHR 0x5C, CHR 0x5C]
      else if c = CHR 0x08 then [CHR 0x5C, CHR ''b'']
      else if c = CHR 0x0C then [CHR 0x5C, CHR ''f'']
      else if c = CHR 0x0A then [CHR 0x5C, CHR ''n'']
      else if c = CHR 0x0D then [CHR 0x5C, CHR ''r'']
      else if c = CHR 0x09 then [CHR 0x5C, CHR ''t'']
      else if (of_char c :: nat) < 32
        then [CHR 0x5C, CHR ''u'', CHR ''0'', CHR ''0'',
              hex_digit (of_char c div 16), hex_digit (of_char c mod 16)]
      else [c])"

definition json_quote :: "string \<Rightarrow> string" where
  "json_quote s = CHR 0x22 # concat (map json_escape s) @ [CHR 0x22]"

fun json_scalar_text :: "jsval \<Rightarrow> string" where
  "json_scalar_text JUndefined = []"
| "json_scalar_text JNull = ''null''"
| "json_scalar_text (JBool b) = (if b then ''true'' else ''false'')"
| "json_scalar_text (JNum r) = r"
| "json_scalar_text (JStr s) = json_quote s"

definition json_stringify :: "(string \<times> jsval) list \<Rightarrow> string" where
  "json_stringify obj =
     (let members = map (\<lambda>(k, v). ''  '' @ json_quote k @ '': '' @ json_scalar_text v)
                        (filter (\<lambda>(k, v). v \<noteq> JUndefined) obj)
      in if members = [] then ''{}''
         else ''{\<newline>'' @ join_with '',\<newline>'' members @ ''\<newline>}'')"

definition writeJson :: "env \<Rightarrow> string \<Rightarrow> (string \<times> jsval) list \<Rightarrow> unit io" where
  "writeJson env file obj = write_file env WriteJson file (json_stringify obj @ ''\<newline>'')"

text \<open>
  Reading JSON text back. The reader covers the documents whose top level is an object
  with scalar members (strings with their escapes, integers of at most 15 digits,
  \<^verbatim>\<open>true\<close>, \<^verbatim>\<open>false\<close>, \<^verbatim>\<open>null\<close>) and answers \<open>None\<close> for everything else, malformed
  or not. A string member is read as \<open>JStr\<close>, a bare number as \<open>JNum\<close>.
\<close>

definition is_ws :: "char \<Rightarrow> bool" where
  "is_ws c = (c = CHR '' '' \<or> c = CHR 0x09 \<or> c = CHR 0x0A \<or> c = CHR 0x0D)"

definition skip_ws :: "string \<Rightarrow> string" where
  "skip_ws s = dropWhile is_ws s"

definition hex_value :: "char \<Rightarrow> nat option" where
  "hex_value c =
     (let n = (of_char c :: nat) in
      if 48 \<le> n \<and> n \<le> 57 then Some (n - 48)
      else if 97 \<le> n \<and> n \<le> 102 then Some (n - 87)
      else if 65 \<le> n \<and> n \<le> 70 then Some (n - 55)
      else None)"

definition hex4 :: "char \<Rightarrow> char \<Rightarrow> char \<Rightarrow> char \<Rightarrow> char option" where
  "hex4 a b c d =
     (case (hex_value a, hex_value b, hex_value c, hex_value d) of
        (Some x, Some y, Some z, Some u) \<Rightarrow>
          (let n = ((x * 16 + y) * 16 + z) * 16 + u in if n < 128 then Some (char_of n) else None)
      | _ \<Rightarrow> None)"

definition unescape :: "char \<Rightarrow> char option" where
  "unescape e =
     (if e = CHR 0x22 \<or> e = CHR 0x5C \<or> e = CHR ''/'' then Some e
      else if e = CHR ''b'' then Some (CHR 0x08)
      else if e = CHR ''f'' then Some (CHR 0x0C)
      else if e = CHR ''n'' then Some (CHR 0x0A)
      else if e = CHR ''r'' then Some (CHR 0x0D)
      else if e = CHR ''t'' then Some (CHR 0x09)
      else None)"

definition push :: "char \<Rightarrow> (string \<times> string) option \<Rightarrow> (string \<times> string) option" where
  "push ch r = (case r of None \<Rightarrow> None | Some (s, rest) \<Rightarrow> Some (ch # s, rest))"

text \<open>The characters of a string after its opening quote, up to the closing one.\<close>

fun str_body :: "string \<Rightarrow> (string \<times> string) option" where
  "str_body [] = None"
| "str_body (c # cs) =
     (if c = CHR 0x22 then Some ([], cs)
      else if c = CHR 0x5C then
        (case cs of
           [] \<Rightarrow> None
         | e # r \<Rightarrow>
            if e = CHR ''u'' then
              (case r of
                 a # b # c' # d # r' \<Rightarrow>
                   (case hex4 a b c' d of None \<Rightarrow> None | Some ch \<Rightarrow> push ch (str_body r'))
               | _ \<Rightarrow> None)
            else (case unescape e of None \<Rightarrow> None | Some ch \<Rightarrow> push ch (str_body r)))
      else if (of_char c :: nat) < 32 then None
      else push c (str_body cs))"

definition is_digit :: "char \<Rightarrow> bool" where
  "is_digit c = (48 \<le> (of_char c :: nat) \<and> (of_char c :: nat) \<le> 57)"

definition json_number :: "string \<Rightarrow> (jsval \<times> string) option" where
  "json_number s =
     (let neg = (s \<noteq> [] \<and> hd s = CHR ''-'');
          s1 = (if neg then tl s else s);
          digits = takeWhile is_digit s1;
          rest = dropWhile is_digit s1
      in if digits = [] \<or> 15 < length digits then None
         else if 1 < length digits \<and> hd digits = CHR ''0'' then None
         else if rest \<noteq> [] \<and> hd rest \<in> {CHR ''.'', CHR ''e'', CHR ''E''} then None
         else Some (JNum (if neg \<and> digits \<noteq> ''0'' then CHR ''-'' # digits else digits), rest))"

definition json_scalar :: "string \<Rightarrow> (jsval \<times> string) option" where
  "json_scalar s =
     (if prefix ''true'' s then Some (JBool True, drop 4 s)
      else if prefix ''false'' s then Some (JBool False, drop 5 s)
      else if prefix ''null'' s then Some (JNull, drop 4 s)
      else if s \<noteq> [] \<and> hd s = CHR 0x22
        then (case str_body (tl s) of None \<Rightarrow> None | Some (x, rest) \<Rightarrow> Some (JStr x, rest))
      else json_number s)"

text \<open>
  The members of an object after its opening brace, up to the closing one. Every round
  consumes input, so the length of the text is fuel enough.
\<close>

fun json_members :: "nat \<Rightarrow> string \<Rightarrow> ((string \<times> jsval) list \<times> string) option" where
  "json_members 0 s = None"
| "json_members (Suc n) s =
     (case skip_ws s of
        [] \<Rightarrow> None
      | c # cs \<Rightarrow>
         if c \<noteq> CHR 0x22 then None
         else
           (case str_body cs of
              None \<Rightarrow> None
            | Some (k, r1) \<Rightarrow>
               (case skip_ws r1 of
                  [] \<Rightarrow> None
                | c1 # r2 \<Rightarrow>
                   if c1 \<noteq> CHR '':'' then None
                   else
                     (case json_scalar (skip_ws r2) of
                        None \<Rightarrow> None
                      | Some (v, r3) \<Rightarrow>
                         (case skip_ws r3 of
                            [] \<Rightarrow> None
                          | c2 # r4 \<Rightarrow>
                             if c2 = CHR ''}'' then Some ([(k, v)], r4)
                             else if c2 = CHR '','' then
                               (case json_members n r4 of
                                  None \<Rightarrow> None
                                | Some (kvs, r5) \<Rightarrow> Some ((k, v) # kvs, r5))
                             else None)))))"

definition json_parse :: "string \<Rightarrow> (string \<times> jsval) list option" where
  "json_parse text =
     (case skip_ws text of
        [] \<Rightarrow> None
      | c # cs \<Rightarrow>
         if c \<noteq> CHR ''{'' then None
         else
           (case (if prefix ''}'' (skip_ws cs) then Some ([], tl (skip_ws cs))
                  else json_members (length cs) cs) of
              None \<Rightarrow> None
            | Some (kvs, rest) \<Rightarrow> if skip_ws rest = [] then Some kvs else None))"

section \<open>The App Setup Tool (\<^verbatim>\<open>app-setup-cli.js\<close>)\<close>

text \<open>\<^verbatim>\<open>program.opts()\<close>: a flag that was not given is \<^verbatim>\<open>undefined\<close>.\<close>

record setup_options =
  opt_projectPath :: "string option"
  opt_domain :: "string option"
  opt_frontendPort :: "string option"
  opt_backendPort :: "string option"
  opt_pm2 :: "bool option"

definition option_or_prompt :: "env \<Rightarrow> string option \<Rightarrow> string \<Rightarrow> string option \<Rightarrow> string" where
  "option_or_prompt env opt name dflt =
     (case opt of
        None \<Rightarrow> prompt_input env name dflt
      | Some v \<Rightarrow> if v = [] then prompt_input env name dflt else v)"

text \<open>
  The merged \<^verbatim>\<open>{ ...options, ...answers }\<close>, in the order \<^verbatim>\<open>main\<close> destructures it:
  projectPath, domain, frontendPort, backendPort, pm2.
\<close>

definition promptForMissingOptions ::
  "env \<Rightarrow> setup_options \<Rightarrow> (string \<times> string \<times> string \<times> string \<times> bool) io" where
  "promptForMissingOptions env options =
     return_io
       (option_or_prompt env (opt_projectPath options) ''projectPath'' (Some ''.''),
        option_or_prompt env (opt_domain options) ''domain'' None,
        option_or_prompt env (opt_frontendPort options) ''frontendPort'' (Some ''3000''),
        option_or_prompt env (opt_backendPort options) ''backendPort'' (Some ''5000''),
        (case opt_pm2 options of None \<Rightarrow> prompt_confirm env ''pm2'' False | Some b \<Rightarrow> b))"

definition generateDockerfiles :: "env \<Rightarrow> string \<Rightarrow> unit io" where
  \<open>generateDockerfiles env projectPath =
     (let frontendDockerfile = path_join [projectPath, ''frontend'', ''Dockerfile''];
          backendDockerfile = path_join [projectPath, ''backend'', ''Dockerfile'']
      in bind_io (outputFile env frontendDockerfile
           (''\<newline>'' @
            ''FROM node:14\<newline>'' @
            ''WORKDIR /app\<newline>'' @
            ''COPY package*.json ./\<newline>'' @
            ''RUN npm install\<newline>'' @
            ''COPY . .\<newline>'' @
            ''RUN npm run build\<newline>'' @
            ''EXPOSE 3000\<newline>'' @
            ''CMD ["npm", "start"]\<newline>'' @
            ''  '')) (\<lambda>_.
         bind_io (outputFile env backendDockerfile
           (''\<newline>'' @
            ''FROM node:14\<newline>'' @
            ''WORKDIR /app\<newline>'' @
            ''COPY package*.json ./\<newline>'' @
            ''RUN npm install\<newline>'' @
            ''COPY . .\<newline>'' @
            ''EXPOSE 5000\<newline>'' @
            ''CMD ["npm", "start"]\<newline>'' @
            ''  '')) (\<lambda>_.
         console_log [Str ''Dockerfiles generated successfully.''])))\<close>

definition generateDockerCompose :: "env \<Rightarrow> string \<Rightarrow> string \<Rightarrow> string \<Rightarrow> unit io" where
  \<open>generateDockerCompose env projectPath frontendPort backendPort =
     (let dockerComposePath = path_join [projectPath, ''docker-compose.yml'']
      in bind_io (outputFile env dockerComposePath
           (''\<newline>'' @
            ''version: '3'\<newline>'' @
            ''services:\<newline>'' @
            ''  frontend:\<newline>'' @
            ''    build: ./frontend\<newline>'' @
            ''    ports:\<newline>'' @
            ''      - "'' @ frontendPort @ '':3000"\<newline>'' @
            ''    environment:\<newline>'' @
            ''      - NODE_ENV=production\<newline>'' @
            ''\<newline>'' @
            ''  backend:\<newline>'' @
            ''    build: ./backend\<newline>'' @
            ''    ports:\<newline>'' @
            ''      - "'' @ backendPort @ '':5000"\<newline>'' @
            ''    environment:\<newline>'' @
            ''      - NODE_ENV=production\<newline>'' @
            ''  '')) (\<lambda>_.
         console_log [Str ''docker-compose.yml generated successfully.'']))\<close>

definition generateMetadata :: "env \<Rightarrow> string \<Rightarrow> string \<Rightarrow> string \<Rightarrow> string \<Rightarrow> unit io" where
  "generateMetadata env projectPath domain frontendPort backendPort =
     (let metadataPath = path_join [projectPath, ''metadata.json''];
          metadata = [(''domain'', JStr domain),
                      (''frontendPort'', JStr frontendPort),
                      (''backendPort'', JStr backendPort)]
      in bind_io (writeJson env metadataPath metadata) (\<lambda>_.
         console_log [Str ''metadata.json generated successfully.'']))"

definition startDockerContainers :: "env \<Rightarrow> string \<Rightarrow> unit io" where
  "startDockerContainers env projectPath =
     try_catch
       (bind_io (console_log [Str ''Starting Docker containers...'']) (\<lambda>_.
        bind_io (execSync env ''docker-compose up -d'' (Some projectPath)) (\<lambda>_.
        console_log [Str ''Docker containers started successfully.''])))
       (\<lambda>error. console_error [Str ''Error starting Docker containers:'', Str (message error)])"

definition installPM2 :: "env \<Rightarrow> string \<Rightarrow> unit io" where
  "installPM2 env projectPath =
     try_catch
       (bind_io (console_log [Str ''Installing PM2...'']) (\<lambda>_.
        bind_io (execSync env ''npm install -g pm2'' (Some projectPath)) (\<lambda>_.
        console_log [Str ''PM2 installed successfully.''])))
       (\<lambda>error. console_error [Str ''Error installing PM2:'', Str (message error)])"

definition main :: "env \<Rightarrow> setup_options \<Rightarrow> unit io" where
  "main env program_opts =
     bind_io (promptForMissingOptions env program_opts)
       (\<lambda>(projectPath, domain, frontendPort, backendPort, pm2).
     bind_io (generateDockerfiles env projectPath) (\<lambda>_.
     bind_io (generateDockerCompose env projectPath frontendPort backendPort) (\<lambda>_.
     bind_io (generateMetadata env projectPath domain frontendPort backendPort) (\<lambda>_.
     bind_io (startDockerContainers env projectPath) (\<lambda>_.
     bind_io (if pm2 then installPM2 env projectPath else return_io ()) (\<lambda>_.
     console_log [Str ''App setup completed successfully!'']))))))"

text \<open>The script's last statement: \<^verbatim>\<open>main().catch(...)\<close>.\<close>

definition app_setup_cli :: "env \<Rightarrow> setup_options \<Rightarrow> unit io" where
  "app_setup_cli env program_opts =
     try_catch (main env program_opts)
       (\<lambda>error. bind_io (console_error [Str ''An error occurred:'', Err error]) (\<lambda>_.
                 process_exit 1))"

text \<open>
  The status the process ends with: the argument of \<^verbatim>\<open>process.exit\<close>, zero when the
  script runs to its end, one for an error nobody caught.
\<close>

fun exit_status :: "'a result \<Rightarrow> nat" where
  "exit_status (Return a) = 0"
| "exit_status (Throw e) = 1"
| "exit_status (Exit n) = n"

section \<open>The Site Manager Tool (\<^verbatim>\<open>nginx/nginx-cli.js\<close>)\<close>

definition ensureNginxInstalled :: "env \<Rightarrow> unit io" where
  "ensureNginxInstalled env =
     try_catch
       (bind_io (execSync env ''which nginx'' None) (\<lambda>_.
        console_log [Str ''Nginx is already installed.'']))
       (\<lambda>error.
        bind_io (console_log [Str ''Nginx is not installed. Installing Nginx...'']) (\<lambda>_.
        try_catch
          (bind_io (execSync env ''sudo apt-get update'' None) (\<lambda>_.
           bind_io (execSync env ''sudo apt-get install -y nginx'' None) (\<lambda>_.
           console_log [Str ''Nginx installed successfully.''])))
          (\<lambda>installError.
           bind_io (console_error [Str ''Failed to install Nginx:'', Str (message installError)])
             (\<lambda>_. process_exit 1))))"

definition generateNginxConfig :: "jsval \<Rightarrow> jsval \<Rightarrow> jsval \<Rightarrow> bool \<Rightarrow> bool \<Rightarrow> string" where
  \<open>generateNginxConfig domain frontendPort backendPort useDomain useSSL =
     (let config = ''\<newline>'' @
            ''server {\<newline>'' @
            ''    '' @ (if useDomain then ''server_name '' @ toString domain @ '';'' else '''') @ ''\<newline>'' @
            ''\<newline>'' @
            ''    location / {\<newline>'' @
            ''        proxy_pass http://localhost:'' @ toString frontendPort @ '';\<newline>'' @
            ''        proxy_set_header Host $host;\<newline>'' @
            ''        proxy_set_header X-Real-IP $remote_addr;\<newline>'' @
            ''    }\<newline>'' @
            ''\<newline>'' @
            ''    location /api {\<newline>'' @
            ''        proxy_pass http://localhost:'' @ toString backendPort @ '';\<newline>'' @
            ''        proxy_set_header Host $host;\<newline>'' @
            ''        proxy_set_header X-Real-IP $remote_addr;\<newline>'' @
            ''    }\<newline>'';
          config = (if useSSL
            then config @ ''\<newline>'' @
              ''    listen 443 ssl;\<newline>'' @
              ''    ssl_certificate /etc/letsencrypt/live/'' @ toString domain @ ''/fullchain.pem;\<newline>'' @
              ''    ssl_certificate_key /etc/letsencrypt/live/'' @ toString domain @ ''/privkey.pem;\<newline>''
            else config @ ''\<newline>'' @
              ''    listen 80;\<newline>'');
          config = config @ ''\<newline>'' @
            ''}\<newline>'';
          config = (if useDomain \<and> useSSL
            then config @ ''\<newline>'' @
              ''server {\<newline>'' @
              ''    listen 80;\<newline>'' @
              ''    server_name '' @ toString domain @ '';\<newline>'' @
              ''    return 301 https://$host$request_uri;\<newline>'' @
              ''}\<newline>''
            else config)
      in config)\<close>

definition certbot_command :: "jsval \<Rightarrow> string" where
  "certbot_command domain =
     ''certbot --nginx -d '' @ toString domain @
     '' --non-interactive --agree-tos --email admin@'' @ toString domain"

definition obtainSSLCertificate :: "env \<Rightarrow> jsval \<Rightarrow> unit io" where
  "obtainSSLCertificate env domain =
     try_catch
       (bind_io (console_log [Str (''Obtaining SSL certificate for '' @ toString domain @ ''...'')])
          (\<lambda>_.
        bind_io (execSync env (certbot_command domain) None) (\<lambda>_.
        console_log [Str ''SSL certificate obtained successfully.''])))
       (\<lambda>error. console_error [Str ''Error obtaining SSL certificate:'', Str (message error)])"

definition reloadNginx :: "env \<Rightarrow> unit io" where
  "reloadNginx env =
     try_catch
       (bind_io (console_log [Str ''Reloading Nginx...'']) (\<lambda>_.
        bind_io (execSync env ''nginx -s reload'' None) (\<lambda>_.
        console_log [Str ''Nginx reloaded successfully.''])))
       (\<lambda>error. console_error [Str ''Error reloading Nginx:'', Str (message error)])"

text \<open>
  \<^verbatim>\<open>add-site\<close>. With commander's negating flags, \<^verbatim>\<open>options.domain\<close> and \<^verbatim>\<open>options.ssl\<close>
  are \<^verbatim>\<open>true\<close> unless \<^verbatim>\<open>--no-domain\<close> / \<^verbatim>\<open>--no-ssl\<close> was passed.
\<close>

record add_options =
  add_metadata :: "string option"
  add_domain :: bool
  add_ssl :: bool

text \<open>\<^verbatim>\<open>const { domain, frontendPort, backendPort } = metadata\<close>; on \<^verbatim>\<open>null\<close> it throws.\<close>

definition property :: "document \<Rightarrow> string \<Rightarrow> jsval" where
  "property doc key =
     (case doc of
        DObject members \<Rightarrow> (case map_of members key of Some v \<Rightarrow> v | None \<Rightarrow> JUndefined)
      | _ \<Rightarrow> JUndefined)"

definition destructure :: "document \<Rightarrow> (jsval \<times> jsval \<times> jsval) io" where
  "destructure metadata =
     (case metadata of
        DNull \<Rightarrow> (\<lambda>w. (Throw (Error ''TypeError: Cannot destructure property of null''), w))
      | _ \<Rightarrow> return_io (property metadata ''domain'',
                         property metadata ''frontendPort'',
                         property metadata ''backendPort''))"

definition config_name :: "jsval \<Rightarrow> jsval \<Rightarrow> jsval \<Rightarrow> bool \<Rightarrow> jsval" where
  "config_name domain frontendPort backendPort useDomain =
     (if useDomain then domain
      else JStr (''site_'' @ toString frontendPort @ ''_'' @ toString backendPort))"

definition addSite :: "env \<Rightarrow> add_options \<Rightarrow> unit io" where
  "addSite env options =
     bind_io (ensureNginxInstalled env) (\<lambda>_.
     bind_io (if truthy (add_metadata options)
              then readJson env (case add_metadata options of Some path \<Rightarrow> path | None \<Rightarrow> [])
              else readJson env (prompt_input env ''metadataPath'' None)) (\<lambda>metadata.
     bind_io (destructure metadata) (\<lambda>(domain, frontendPort, backendPort).
     let useDomain = (add_domain options \<noteq> False);
         useSSL = (add_ssl options \<noteq> False);
         nginxConfig = generateNginxConfig domain frontendPort backendPort useDomain useSSL;
         configName = config_name domain frontendPort backendPort useDomain;
         nginxConfigPath = ''/etc/nginx/sites-available/'' @ toString configName;
         nginxEnabledPath = ''/etc/nginx/sites-enabled/'' @ toString configName
     in
     bind_io (outputFile env nginxConfigPath nginxConfig) (\<lambda>_.
     bind_io (ensureSymlink env nginxConfigPath nginxEnabledPath) (\<lambda>_.
     bind_io (if useDomain \<and> useSSL then obtainSSLCertificate env domain else return_io ()) (\<lambda>_.
     bind_io (reloadNginx env) (\<lambda>_.
     console_log [Str (''Site '' @ toString configName @ '' added successfully!'')])))))))"


text \<open>\<^verbatim>\<open>for (const x of xs) { body }\<close>.\<close>

fun for_of :: "'a list \<Rightarrow> ('a \<Rightarrow> unit io) \<Rightarrow> unit io" where
  "for_of [] body = return_io ()"
| "for_of (x # xs) body = bind_io (body x) (\<lambda>_. for_of xs body)"

definition listSites :: "env \<Rightarrow> unit io" where
  "listSites env =
     bind_io (ensureNginxInstalled env) (\<lambda>_.
     bind_io (readdir env ''/etc/nginx/sites-available'') (\<lambda>sitesAvailable.
     bind_io (readdir env ''/etc/nginx/sites-enabled'') (\<lambda>sitesEnabled.
     bind_io (console_log [Str ''Active sites:'']) (\<lambda>_.
     bind_io (for_of sitesEnabled (\<lambda>site.
                console_log [Str (''- '' @ site @ '' (enabled)'')])) (\<lambda>_.
     bind_io (console_log [Str ''\<newline>Available sites:'']) (\<lambda>_.
     for_of sitesAvailable (\<lambda>site.
       if site \<notin> set sitesEnabled
       then console_log [Str (''- '' @ site @ '' (disabled)'')]
       else return_io ())))))))"

section \<open>Vocabulary of the properties\<close>

subsection \<open>Lines and blocks of generated text\<close>

definition split_lines :: "string \<Rightarrow> string list" where
  "split_lines t = split_on CHR ''\<newline>'' t"

definition ltrim :: "string \<Rightarrow> string" where
  "ltrim s = dropWhile (\<lambda>c. c = CHR '' '') s"

text \<open>The lines of a text, each without its indentation.\<close>

definition text_lines :: "string \<Rightarrow> string list" where
  "text_lines t = map ltrim (split_lines t)"

definition single_line :: "string \<Rightarrow> bool" where
  "single_line s = (CHR ''\<newline>'' \<notin> set s)"

text \<open>
  The top-level \<^verbatim>\<open>server { ... }\<close> blocks of a configuration, each as the lines between
  its opening line and the closing brace that matches it.
\<close>

fun blocks_from :: "string list option \<Rightarrow> nat \<Rightarrow> string list \<Rightarrow> string list list" where
  "blocks_from cur depth [] = []"
| "blocks_from None depth (l # ls) =
     (if l = ''server {'' then blocks_from (Some []) 0 ls else blocks_from None 0 ls)"
| "blocks_from (Some body) depth (l # ls) =
     (if l = ''}'' then
        (case depth of
           0 \<Rightarrow> body # blocks_from None 0 ls
         | Suc k \<Rightarrow> blocks_from (Some (body @ [l])) k ls)
      else if l \<noteq> [] \<and> last l = CHR ''{'' then blocks_from (Some (body @ [l])) (Suc depth) ls
      else blocks_from (Some (body @ [l])) depth ls)"

definition server_blocks :: "string \<Rightarrow> string list list" where
  "server_blocks t = blocks_from None 0 (text_lines t)"

text \<open>
  The port mappings of a compose file: the list items of the form \<^verbatim>\<open>- "HOST:CONTAINER"\<close>,
  split at the last colon (the host side may itself carry an address and a colon).
\<close>

definition parse_mapping :: "string \<Rightarrow> (string \<times> string) option" where
  \<open>parse_mapping l =
     (if prefix ''- "'' l \<and> 4 \<le> length l \<and> last l = CHR 0x22 then
        (let body = butlast (drop 3 l)
         in if CHR '':'' \<in> set body
            then Some (rev (tl (dropWhile (\<lambda>c. c \<noteq> CHR '':'') (rev body))),
                       rev (takeWhile (\<lambda>c. c \<noteq> CHR '':'') (rev body)))
            else None)
      else None)\<close>

definition port_mappings :: "string \<Rightarrow> (string \<times> string) list" where
  "port_mappings t = List.map_filter parse_mapping (text_lines t)"

subsection \<open>Sites\<close>

definition available_path :: "string \<Rightarrow> string" where
  "available_path name = ''/etc/nginx/sites-available/'' @ name"

definition enabled_path :: "string \<Rightarrow> string" where
  "enabled_path name = ''/etc/nginx/sites-enabled/'' @ name"



subsection \<open>Runs\<close>

text \<open>The web server is installed, or its installation succeeds.\<close>

definition nginx_available :: "env \<Rightarrow> bool" where
  "nginx_available env =
     (exec_error env ''which nginx'' = None \<or>
      (exec_error env ''sudo apt-get update'' = None \<and>
       exec_error env ''sudo apt-get install -y nginx'' = None))"

text \<open>The commands the presence check runs, in order.\<close>

definition ensure_commands :: "env \<Rightarrow> (string \<times> string option) list" where
  "ensure_commands env =
     (if exec_error env ''which nginx'' = None then [(''which nginx'', None)]
      else if exec_error env ''sudo apt-get update'' = None
        then [(''which nginx'', None), (''sudo apt-get update'', None),
              (''sudo apt-get install -y nginx'', None)]
      else [(''which nginx'', None), (''sudo apt-get update'', None)])"

text \<open>The message of the installation step that failed.\<close>

definition install_failure :: "env \<Rightarrow> string" where
  "install_failure env =
     (case exec_error env ''sudo apt-get update'' of
        Some msg \<Rightarrow> msg
      | None \<Rightarrow> (case exec_error env ''sudo apt-get install -y nginx'' of
                   Some msg \<Rightarrow> msg
                 | None \<Rightarrow> []))"

text \<open>
  The file an \<^verbatim>\<open>add-site\<close> run reads its metadata from, the document it finds there and
  the site name it derives.
\<close>

definition metadata_path :: "env \<Rightarrow> add_options \<Rightarrow> string" where
  "metadata_path env options =
     (case add_metadata options of
        None \<Rightarrow> prompt_input env ''metadataPath'' None
      | Some path \<Rightarrow> if path = [] then prompt_input env ''metadataPath'' None else path)"

definition requested_metadata :: "env \<Rightarrow> add_options \<Rightarrow> document" where
  "requested_metadata env options = json_file env (metadata_path env options)"

definition site_domain :: "env \<Rightarrow> add_options \<Rightarrow> jsval" where
  "site_domain env options = property (requested_metadata env options) ''domain''"

definition site_frontendPort :: "env \<Rightarrow> add_options \<Rightarrow> jsval" where
  "site_frontendPort env options = property (requested_metadata env options) ''frontendPort''"

definition site_backendPort :: "env \<Rightarrow> add_options \<Rightarrow> jsval" where
  "site_backendPort env options = property (requested_metadata env options) ''backendPort''"

definition site_name :: "env \<Rightarrow> add_options \<Rightarrow> string" where
  "site_name env options =
     toString (config_name (site_domain env options) (site_frontendPort env options)
                           (site_backendPort env options) (add_domain options))"

text \<open>The configuration text such a run generates.\<close>

definition site_config :: "env \<Rightarrow> add_options \<Rightarrow> string" where
  "site_config env options =
     generateNginxConfig (site_domain env options) (site_frontendPort env options)
       (site_backendPort env options) (add_domain options) (add_ssl options)"

text \<open>
  The part of \<^verbatim>\<open>addSite\<close> that follows the reading of the metadata, and within it the
  steps that follow the two file-system calls.
\<close>

definition site_tail :: "env \<Rightarrow> jsval \<Rightarrow> string \<Rightarrow> bool \<Rightarrow> unit io" where
  "site_tail env domain name certify =
     bind_io (if certify then obtainSSLCertificate env domain else return_io ()) (\<lambda>_.
     bind_io (reloadNginx env) (\<lambda>_.
     console_log [Str (''Site '' @ name @ '' added successfully!'')]))"

definition place_site :: "env \<Rightarrow> jsval \<Rightarrow> jsval \<Rightarrow> jsval \<Rightarrow> bool \<Rightarrow> bool \<Rightarrow> unit io" where
  "place_site env domain frontendPort backendPort useDomain useSSL =
     (let name = toString (config_name domain frontendPort backendPort useDomain) in
      bind_io (outputFile env (available_path name)
                 (generateNginxConfig domain frontendPort backendPort useDomain useSSL)) (\<lambda>_.
      bind_io (ensureSymlink env (available_path name) (enabled_path name)) (\<lambda>_.
      site_tail env domain name (useDomain \<and> useSSL))))"

text \<open>Nothing is stored at a place or below it.\<close>

definition absent :: "(string \<Rightarrow> node option) \<Rightarrow> string \<Rightarrow> bool" where
  "absent fs p = (\<forall>q. below p q \<longrightarrow> fs q = None)"

text \<open>The identifier a \<^verbatim>\<open>remove-site\<close> run acts on.\<close>

definition removal_target :: "env \<Rightarrow> string option \<Rightarrow> string" where
  "removal_target env options_domain =
     (if truthy options_domain then (case options_domain of Some d \<Rightarrow> d | None \<Rightarrow> [])
      else prompt_input env ''domain'' None)"

text \<open>
  What \<^verbatim>\<open>list-sites\<close> is to print for the two listings, in the words of the specification:
  every entry of the enabled directory tagged enabled, then every entry of the available
  directory that the enabled directory lacks, tagged disabled.
\<close>

definition enabled_line :: "string \<Rightarrow> arg list" where
  "enabled_line site = [Str (''- '' @ site @ '' (enabled)'')]"

definition disabled_line :: "string \<Rightarrow> arg list" where
  "disabled_line site = [Str (''- '' @ site @ '' (disabled)'')]"

definition spec_listing :: "string list \<Rightarrow> string list \<Rightarrow> arg list list" where
  "spec_listing sitesAvailable sitesEnabled =
     [[Str ''Active sites:'']] @ map enabled_line sitesEnabled @
     [[Str ''\<newline>Available sites:'']] @
     map disabled_line (filter (\<lambda>site. site \<notin> set sitesEnabled) sitesAvailable)"

text \<open>An environment that differs from the given one in the fate of external commands only.\<close>

definition with_commands :: "env \<Rightarrow> (string \<Rightarrow> string option) \<Rightarrow> env" where
  "with_commands env outcome = env\<lparr>exec_error := outcome\<rparr>"

text \<open>The configuration the App Setup Tool works with, once the prompts are answered.\<close>

definition resolved_options ::
  "env \<Rightarrow> setup_options \<Rightarrow> string \<times> string \<times> string \<times> string \<times> bool" where
  "resolved_options env options =
     (option_or_prompt env (opt_projectPath options) ''projectPath'' (Some ''.''),
      option_or_prompt env (opt_domain options) ''domain'' None,
      option_or_prompt env (opt_frontendPort options) ''frontendPort'' (Some ''3000''),
      option_or_prompt env (opt_backendPort options) ''backendPort'' (Some ''5000''),
      (case opt_pm2 options of None \<Rightarrow> prompt_confirm env ''pm2'' False | Some b \<Rightarrow> b))"

text \<open>The best-effort steps that follow the generation of the files.\<close>

definition setup_tail :: "env \<Rightarrow> string \<Rightarrow> bool \<Rightarrow> unit io" where
  "setup_tail env projectPath pm2 =
     bind_io (startDockerContainers env projectPath) (\<lambda>_.
     bind_io (if pm2 then installPM2 env projectPath else return_io ()) (\<lambda>_.
     console_log [Str ''App setup completed successfully!'']))"

text \<open>
  A step that never ends the process, writes nothing to standard error and runs no
  command; it may print.
\<close>

definition quiet :: "unit io \<Rightarrow> bool" where
  "quiet m = (\<forall>w. (\<forall>n. fst (m w) \<noteq> Exit n) \<and> stderr (snd (m w)) = stderr w \<and>
                  spawned (snd (m w)) = spawned w \<and>
                  (\<exists>msgs. stdout (snd (m w)) = stdout w @ msgs))"

text \<open>Names that \<^verbatim>\<open>path.join\<close> keeps as they are: no slash, not empty, not a dot segment.\<close>

definition plain_names :: "string list \<Rightarrow> bool" where
  "plain_names names =
     (names \<noteq> [] \<and>
      (\<forall>n \<in> set names. n \<noteq> [] \<and> n \<noteq> ''.'' \<and> n \<noteq> ''..'' \<and> CHR ''/'' \<notin> set n))"

text \<open>The ports a Dockerfile exposes, one for each \<^verbatim>\<open>EXPOSE\<close> line.\<close>

definition exposed :: "string \<Rightarrow> string list" where
  "exposed t = map (drop 7) (filter (prefix ''EXPOSE '') (text_lines t))"

text \<open>The four files the generation steps write.\<close>

definition generated_paths :: "string \<Rightarrow> string list" where
  "generated_paths p =
     [path_join [p, ''frontend'', ''Dockerfile''], path_join [p, ''backend'', ''Dockerfile''],
      path_join [p, ''docker-compose.yml''], path_join [p, ''metadata.json'']]"

text \<open>
  What \<open>normalizeString\<close> has kept: no empty segment, no \<^verbatim>\<open>.\<close>, and \<^verbatim>\<open>..\<close> only at the
  start of a path that may climb.
\<close>

definition settled :: "bool \<Rightarrow> string list \<Rightarrow> bool" where
  "settled al res =
     ((\<forall>s \<in> set res. s \<noteq> [] \<and> s \<noteq> ''.'') \<and>
      (if al then \<exists>m k. res = m @ replicate k ''..'' \<and> ''..'' \<notin> set m
       else ''..'' \<notin> set res))"

text \<open>The three file-generation steps of the App Setup Tool.\<close>

definition generation_steps :: "env \<Rightarrow> string \<Rightarrow> string \<Rightarrow> string \<Rightarrow> string \<Rightarrow> unit io" where
  "generation_steps env projectPath domain frontendPort backendPort =
     bind_io (generateDockerfiles env projectPath) (\<lambda>_.
     bind_io (generateDockerCompose env projectPath frontendPort backendPort) (\<lambda>_.
     generateMetadata env projectPath domain frontendPort backendPort))"

subsection \<open>Sample environments\<close>

text \<open>An environment in which nothing fails and every JSON file holds the given document.\<close>

definition calm :: "document \<Rightarrow> env" where
  "calm doc =
     \<lparr>exec_error = (\<lambda>command. None), fs_error = (\<lambda>call path. None),
      json_file = (\<lambda>path. doc), dir_entries = (\<lambda>dir. []),
      typed = (\<lambda>name. []), confirm_typed = (\<lambda>name. None)\<rparr>"

text \<open>The same, except that the listed commands fail.\<close>

definition failing :: "document \<Rightarrow> string list \<Rightarrow> env" where
  "failing doc commands =
     with_commands (calm doc)
       (\<lambda>command. if command \<in> set commands then Some (''Command failed: '' @ command)
                   else None)"

text \<open>The same as \<open>calm\<close>, with the two site directories listing the given entries.\<close>

definition listing :: "string list \<Rightarrow> string list \<Rightarrow> env" where
  "listing sitesAvailable sitesEnabled =
     (calm DOther)\<lparr>dir_entries :=
        (\<lambda>dir. if dir = ''/etc/nginx/sites-available'' then sitesAvailable
               else if dir = ''/etc/nginx/sites-enabled'' then sitesEnabled
               else [])\<rparr>"

definition fresh :: world where
  "fresh = \<lparr>files = (\<lambda>path. None), stdout = [], stderr = [], spawned = []\<rparr>"



text \<open>
  An environment in which \<^verbatim>\<open>ensureSymlink\<close> reports an occupied destination as an error,
  as the newer releases of the library do.
\<close>

definition strict :: "document \<Rightarrow> env" where
  "strict doc =
     (calm doc)\<lparr>fs_error :=
        (\<lambda>call path. if call = EnsureSymlink then Some ''EEXIST: file already exists''
                      else None)\<rparr>"

text \<open>
  An environment in which every external command fails and the operating system refuses
  every write below \<^verbatim>\<open>/readonly\<close>.
\<close>

definition hostile :: env where
  "hostile =
     (calm DOther)\<lparr>exec_error := (\<lambda>command. Some (''Command failed: '' @ command)),
                    fs_error := (\<lambda>call path. if prefix ''/readonly'' path
                                             then Some ''EROFS: read-only file system''
                                             else None)\<rparr>"

text \<open>\<^verbatim>\<open>app-setup-cli -p <path> -d example.com -f 8080 -b 9090 --pm2\<close>.\<close>

definition setup_in :: "string \<Rightarrow> setup_options" where
  "setup_in path =
     \<lparr>opt_projectPath = Some path, opt_domain = Some ''example.com'',
      opt_frontendPort = Some ''8080'', opt_backendPort = Some ''9090'',
      opt_pm2 = Some True\<rparr>"

definition example_metadata :: document where
  "example_metadata =
     DObject [(''domain'', JStr ''example.com''),
              (''frontendPort'', JStr ''3000''),
              (''backendPort'', JStr ''5000'')]"

text \<open>A metadata file that gives the two ports and no domain.\<close>

definition ports_only :: document where
  "ports_only = DObject [(''frontendPort'', JStr ''3000''), (''backendPort'', JStr ''5000'')]"

text \<open>\<^verbatim>\<open>add-site --metadata metadata.json\<close> with the two toggles as given.\<close>

definition flags :: "bool \<Rightarrow> bool \<Rightarrow> add_options" where
  "flags useDomain useSSL =
     \<lparr>add_metadata = Some ''metadata.json'', add_domain = useDomain, add_ssl = useSSL\<rparr>"


section \<open>Text: lines of the generated files\<close>

lemma split_on_not_Nil [simp]: "split_on sep t \<noteq> []"
  by (induction t) (auto elim: app_hd.elims)

lemma split_on_single: "sep \<notin> set s \<Longrightarrow> split_on sep (s @ t) = app_hd s (split_on sep t)"
proof (induction s)
  case Nil
  show ?case by (cases "split_on sep t") simp_all
next
  case (Cons c s)
  then show ?case by (cases "split_on sep t") auto
qed

lemma split_on_append_sep: "split_on sep (a @ sep # b) = split_on sep a @ split_on sep b"
proof (induction a)
  case Nil
  show ?case by simp
next
  case (Cons c a)
  then show ?case by (cases "split_on sep a") auto
qed

lemma split_lines_simps [simp]:
  "split_lines [] = [[]]"
  "split_lines (c # cs) =
     (if c = CHR ''\<newline>'' then [] # split_lines cs else app_hd [c] (split_lines cs))"
  by (simp_all add: split_lines_def)

lemma split_lines_single:
  "single_line s \<Longrightarrow> split_lines (s @ t) = app_hd s (split_lines t)"
  by (simp add: split_lines_def single_line_def split_on_single)

lemma ltrim_simps [simp]:
  "ltrim [] = []"
  "ltrim (c # cs) = (if c = CHR '' '' then ltrim cs else c # cs)"
  by (simp_all add: ltrim_def)

text \<open>A whole line between two line breaks is a line of the text, whatever surrounds it.\<close>

lemma line_between_breaks:
  "single_line l \<Longrightarrow>
   ltrim l \<in> set (text_lines (a @ CHR ''\<newline>'' # l @ CHR ''\<newline>'' # b))"
  by (simp add: text_lines_def split_lines_def split_on_append_sep single_line_def
        split_on_single[where t="[]", simplified])

text \<open>The lines of a configuration whose interpolated values hold no line break.\<close>

lemma config_lines:
  assumes "single_line (toString d)" "single_line (toString f)" "single_line (toString b)"
  shows "text_lines (generateNginxConfig d f b useDomain useSSL) =
    [[], ''server {'', (if useDomain then ''server_name '' @ toString d @ '';'' else [])] @
    [[], ''location / {'', ''proxy_pass http://localhost:'' @ toString f @ '';'',
     ''proxy_set_header Host $host;'', ''proxy_set_header X-Real-IP $remote_addr;'', ''}''] @
    [[], ''location /api {'', ''proxy_pass http://localhost:'' @ toString b @ '';'',
     ''proxy_set_header Host $host;'', ''proxy_set_header X-Real-IP $remote_addr;'', ''}''] @
    (if useSSL
     then [[], ''listen 443 ssl;'',
           ''ssl_certificate /etc/letsencrypt/live/'' @ toString d @ ''/fullchain.pem;'',
           ''ssl_certificate_key /etc/letsencrypt/live/'' @ toString d @ ''/privkey.pem;'']
     else [[], ''listen 80;'']) @
    [[], ''}''] @
    (if useDomain \<and> useSSL
     then [[], ''server {'', ''listen 80;'', ''server_name '' @ toString d @ '';'',
           ''return 301 https://$host$request_uri;'', ''}'']
     else []) @
    [[]]"
  using assms
  by (cases useDomain; cases useSSL)
     (simp_all add: generateNginxConfig_def text_lines_def split_lines_single)

text \<open>Without domain and without TLS the domain does not occur in the text at all.\<close>

lemma config_lines_plain:
  assumes "single_line (toString f)" "single_line (toString b)"
  shows "text_lines (generateNginxConfig d f b False False) =
    [[], ''server {'', [],
     [], ''location / {'', ''proxy_pass http://localhost:'' @ toString f @ '';'',
     ''proxy_set_header Host $host;'', ''proxy_set_header X-Real-IP $remote_addr;'', ''}'',
     [], ''location /api {'', ''proxy_pass http://localhost:'' @ toString b @ '';'',
     ''proxy_set_header Host $host;'', ''proxy_set_header X-Real-IP $remote_addr;'', ''}'',
     [], ''listen 80;'', [], ''}'', []]"
  using assms
  by (simp add: generateNginxConfig_def text_lines_def split_lines_single)

section \<open>Runs: sequencing, console, external commands\<close>

lemmas io_defs =
  try_catch_def bind_io_def return_io_def console_log_def console_error_def execSync_def
  process_exit_def Let_def

lemma bind_io_alt:
  "bind_io m f w =
     (case fst (m w) of
        Return a \<Rightarrow> f a (snd (m w))
      | Throw e \<Rightarrow> (Throw e, snd (m w))
      | Exit n \<Rightarrow> (Exit n, snd (m w)))"
  by (simp add: bind_io_def split: prod.splits result.splits)

lemma bind_return [simp]: "bind_io (return_io a) f = f a"
  by (simp add: bind_io_def return_io_def)

lemma bind_console_log:
  "bind_io (console_log a) f w = f () (w\<lparr>stdout := stdout w @ [a]\<rparr>)"
  by (simp add: bind_io_def console_log_def)

text \<open>
  The pattern shared by the four best-effort steps: announce, run the command, report
  success; on failure report the error and carry on.
\<close>

lemma guarded_command:
  "try_catch
     (bind_io (console_log a) (\<lambda>_. bind_io (execSync env c cwd) (\<lambda>_. console_log b)))
     (\<lambda>error. console_error [Str s, Str (message error)]) w =
   (Return (),
    w\<lparr>stdout := stdout w @ (case exec_error env c of None \<Rightarrow> [a, b] | Some m \<Rightarrow> [a]),
      stderr := stderr w @ (case exec_error env c of None \<Rightarrow> [] | Some m \<Rightarrow> [[Str s, Str m]]),
      spawned := spawned w @ [(c, cwd)]\<rparr>)"
  by (simp add: io_defs split: option.splits)

lemma reloadNginx_eq:
  "reloadNginx env w =
   (Return (),
    w\<lparr>stdout := stdout w @ (case exec_error env ''nginx -s reload'' of
                               None \<Rightarrow> [[Str ''Reloading Nginx...''],
                                         [Str ''Nginx reloaded successfully.'']]
                             | Some m \<Rightarrow> [[Str ''Reloading Nginx...'']]),
      stderr := stderr w @ (case exec_error env ''nginx -s reload'' of
                               None \<Rightarrow> []
                             | Some m \<Rightarrow> [[Str ''Error reloading Nginx:'', Str m]]),
      spawned := spawned w @ [(''nginx -s reload'', None)]\<rparr>)"
  unfolding reloadNginx_def by (rule guarded_command)

lemma obtainSSLCertificate_eq:
  "obtainSSLCertificate env d w =
   (Return (),
    w\<lparr>stdout := stdout w @ (case exec_error env (certbot_command d) of
                               None \<Rightarrow> [[Str (''Obtaining SSL certificate for '' @ toString d @ ''...'')],
                                         [Str ''SSL certificate obtained successfully.'']]
                             | Some m \<Rightarrow> [[Str (''Obtaining SSL certificate for '' @ toString d @ ''...'')]]),
      stderr := stderr w @ (case exec_error env (certbot_command d) of
                               None \<Rightarrow> []
                             | Some m \<Rightarrow> [[Str ''Error obtaining SSL certificate:'', Str m]]),
      spawned := spawned w @ [(certbot_command d, None)]\<rparr>)"
  unfolding obtainSSLCertificate_def by (rule guarded_command)

lemma bind_reloadNginx:
  "bind_io (reloadNginx env) f w = f () (snd (reloadNginx env w))"
  by (simp add: bind_io_alt reloadNginx_eq)

lemma bind_obtainSSLCertificate:
  "bind_io (obtainSSLCertificate env d) f w = f () (snd (obtainSSLCertificate env d w))"
  by (simp add: bind_io_alt obtainSSLCertificate_eq)

subsection \<open>The presence check\<close>

lemma ensure_fst:
  "fst (ensureNginxInstalled env w) = (if nginx_available env then Return () else Exit 1)"
  by (simp add: ensureNginxInstalled_def nginx_available_def io_defs split: option.splits)

lemma ensure_files: "files (snd (ensureNginxInstalled env w)) = files w"
  by (simp add: ensureNginxInstalled_def io_defs split: option.splits)

lemma ensure_spawned:
  "spawned (snd (ensureNginxInstalled env w)) = spawned w @ ensure_commands env"
  by (simp add: ensureNginxInstalled_def ensure_commands_def io_defs split: option.splits)

lemma ensure_stderr:
  "stderr (snd (ensureNginxInstalled env w)) =
     (if nginx_available env then stderr w
      else stderr w @ [[Str ''Failed to install Nginx:'', Str (install_failure env)]])"
  by (simp add: ensureNginxInstalled_def nginx_available_def install_failure_def
        io_defs split: option.splits)

lemma ensure_stdout: "\<exists>msgs. stdout (snd (ensureNginxInstalled env w)) = stdout w @ msgs"
  by (simp add: ensureNginxInstalled_def io_defs split: option.splits)

lemma bind_ensure:
  "bind_io (ensureNginxInstalled env) f w =
     (if nginx_available env then f () (snd (ensureNginxInstalled env w))
      else (Exit 1, snd (ensureNginxInstalled env w)))"
  by (simp add: bind_io_alt ensure_fst)

section \<open>Paths below the project directory\<close>

lemma join_with_Cons: "ys \<noteq> [] \<Longrightarrow> join_with s (x # ys) = x @ s @ join_with s ys"
  by (cases ys) simp_all

lemma join_with_append:
  "xs \<noteq> [] \<Longrightarrow> ys \<noteq> [] \<Longrightarrow> join_with s (xs @ ys) = join_with s xs @ s @ join_with s ys"
proof (induction xs)
  case Nil
  then show ?case by simp
next
  case (Cons x xs)
  show ?case
  proof (cases "xs = []")
    case True
    with Cons.prems show ?thesis by (simp add: join_with_Cons)
  next
    case False
    with Cons show ?thesis by (simp add: join_with_Cons)
  qed
qed

lemma normalizeString_append:
  "normalizeString (xs @ ys) al acc = normalizeString ys al (normalizeString xs al acc)"
  by (induction xs arbitrary: acc) simp_all

lemma normalizeString_plain:
  "\<forall>n \<in> set names. n \<noteq> [] \<and> n \<noteq> ''.'' \<and> n \<noteq> ''..'' \<Longrightarrow>
   normalizeString names al acc = rev names @ acc"
  by (induction names arbitrary: acc) simp_all

lemma split_on_none: "sep \<notin> set n \<Longrightarrow> split_on sep n = [n]"
  using split_on_single[of sep n "[]"] by simp

lemma split_on_join:
  "names \<noteq> [] \<Longrightarrow> \<forall>n \<in> set names. sep \<notin> set n \<Longrightarrow>
   split_on sep (join_with [sep] names) = names"
proof (induction names)
  case Nil
  then show ?case by simp
next
  case (Cons n names)
  show ?case
  proof (cases "names = []")
    case True
    with Cons.prems show ?thesis by (simp add: split_on_none)
  next
    case False
    with Cons show ?thesis
      by (simp add: join_with_Cons split_on_append_sep split_on_none)
  qed
qed

lemma join_plain:
  assumes "plain_names names"
  shows "join_with ''/'' names \<noteq> []"
    and "hd (join_with ''/'' names) \<noteq> CHR ''/''"
    and "last (join_with ''/'' names) \<noteq> CHR ''/''"
proof -
  from assms obtain n ns where n: "names = n # ns" by (cases names) (auto simp: plain_names_def)
  with assms have h: "n \<noteq> []" "CHR ''/'' \<notin> set n" by (auto simp: plain_names_def)
  show "join_with ''/'' names \<noteq> []" using n h by (cases ns) simp_all
  show "hd (join_with ''/'' names) \<noteq> CHR ''/''"
    using n h by (cases ns; cases n) auto
  from assms show "last (join_with ''/'' names) \<noteq> CHR ''/''"
  proof (induction names)
    case Nil
    then show ?case by (simp add: plain_names_def)
  next
    case (Cons m ms)
    show ?case
    proof (cases "ms = []")
      case True
      with Cons.prems have "m \<noteq> []" "CHR ''/'' \<notin> set m" by (auto simp: plain_names_def)
      then have "last m \<noteq> CHR ''/''" using last_in_set by metis
      with True show ?thesis by simp
    next
      case False
      with Cons.prems have "plain_names ms" by (auto simp: plain_names_def)
      from Cons.IH[OF this] have l: "last (join_with ''/'' ms) \<noteq> CHR ''/''" .
      have "join_with ''/'' ms \<noteq> []"
        using False \<open>plain_names ms\<close> by (cases ms; cases "tl ms") (auto simp: plain_names_def)
      with l False show ?thesis by (simp add: join_with_Cons)
    qed
  qed
qed

text \<open>
  Joining plain names to a directory appends them, slash-separated, to a prefix that
  depends on the directory alone.
\<close>

lemma path_join_under:
  "\<exists>x. \<forall>names. plain_names names \<longrightarrow> path_join (p # names) = x @ join_with ''/'' names"
proof (cases "p = []")
  case True
  have "path_join (p # names) = [] @ join_with ''/'' names" if pl: "plain_names names" for names
  proof -
    let ?J = "join_with ''/'' names"
    from pl have f: "filter (\<lambda>arg. arg \<noteq> []) names = names" "names \<noteq> []"
      by (auto simp: plain_names_def filter_id_conv)
    from pl have s: "split_on CHR ''/'' ?J = names"
      by (intro split_on_join) (auto simp: plain_names_def)
    from pl have ns: "normalizeString names True [] = rev names"
      by (simp add: normalizeString_plain plain_names_def)
    show ?thesis
      using join_plain[OF pl] f
      by (simp add: path_join_def True normalize_def Let_def s ns)
  qed
  then show ?thesis by blast
next
  case False
  define R where "R = normalizeString (split_on CHR ''/'' p) (hd p \<noteq> CHR ''/'') []"
  define x where "x = (if hd p = CHR ''/'' then ''/'' else []) @
                      (if R = [] then [] else join_with ''/'' (rev R) @ ''/'')"
  have "path_join (p # names) = x @ join_with ''/'' names" if pl: "plain_names names" for names
  proof -
    let ?J = "join_with ''/'' names"
    from pl have f: "filter (\<lambda>arg. arg \<noteq> []) names = names" "names \<noteq> []"
      by (auto simp: plain_names_def filter_id_conv)
    have j: "join_with ''/'' (p # names) = p @ CHR ''/'' # ?J"
      using f(2) by (simp add: join_with_Cons)
    from pl have s: "split_on CHR ''/'' (p @ CHR ''/'' # ?J) = split_on CHR ''/'' p @ names"
      by (simp add: split_on_append_sep split_on_join plain_names_def)
    from pl have ns: "normalizeString (split_on CHR ''/'' p @ names) (hd p \<noteq> CHR ''/'') [] =
        rev names @ R"
      by (simp add: normalizeString_append normalizeString_plain plain_names_def R_def)
    have r: "join_with ''/'' (rev R @ names) =
        (if R = [] then [] else join_with ''/'' (rev R) @ ''/'') @ ?J"
      using f(2) by (simp add: join_with_append)
    have ne: "(if R = [] then [] else join_with ''/'' (rev R) @ ''/'') @ ?J \<noteq> []"
      using join_plain(1)[OF pl] by simp
    have hd: "hd (p @ CHR ''/'' # ?J) = hd p" using False by simp
    have la: "last (p @ CHR ''/'' # ?J) \<noteq> CHR ''/''"
      using join_plain(1,3)[OF pl] by simp
    have "normalize (p @ CHR ''/'' # ?J) = x @ ?J"
      unfolding normalize_def Let_def hd s ns
      using la ne by (simp add: r x_def)
    then show ?thesis
      using False by (simp add: path_join_def f j)
  qed
  then show ?thesis by blast
qed

lemma generated_paths_distinct:
  "distinct [path_join [p, ''frontend'', ''Dockerfile''], path_join [p, ''backend'', ''Dockerfile''],
             path_join [p, ''docker-compose.yml''], path_join [p, ''metadata.json'']]"
proof -
  from path_join_under[of p] obtain x where
    x: "\<And>names. plain_names names \<Longrightarrow> path_join (p # names) = x @ join_with ''/'' names"
    by blast
  have "plain_names [''frontend'', ''Dockerfile'']" "plain_names [''backend'', ''Dockerfile'']"
    "plain_names [''docker-compose.yml'']" "plain_names [''metadata.json'']"
    by (simp_all add: plain_names_def)
  from this[THEN x] show ?thesis by simp
qed

lemma split_on_no_sep: "s \<in> set (split_on sep t) \<Longrightarrow> sep \<notin> set s"
proof (induction t arbitrary: s)
  case Nil
  then show ?case by simp
next
  case (Cons c t)
  then show ?case
    by (cases "split_on sep t") (auto split: if_splits)
qed

lemma settled_Nil [simp]: "settled al []"
  by (simp add: settled_def)

lemma settled_step:
  assumes "settled al res"
  shows "settled al (if seg = [] \<or> seg = ''.'' then res
        else if seg = ''..'' then
          (case res of
             [] \<Rightarrow> if al then [''..''] else []
           | r # rs \<Rightarrow> if r = ''..'' then (if al then ''..'' # res else res) else rs)
        else seg # res)"
proof (cases "seg = [] \<or> seg = ''.''")
  case True
  with assms show ?thesis by simp
next
  case False
  show ?thesis
  proof (cases "seg = ''..''")
    case plain: False
    from assms have "settled al (seg # res)"
    proof (cases al)
      case True
      with assms obtain m k where "res = m @ replicate k ''..''" "''..'' \<notin> set m"
        by (auto simp: settled_def)
      then have "seg # res = (seg # m) @ replicate k ''..'' \<and> ''..'' \<notin> set (seg # m)"
        using plain by auto
      then have "\<exists>m k. seg # res = m @ replicate k ''..'' \<and> ''..'' \<notin> set m" by blast
      with assms True False show ?thesis by (simp add: settled_def)
    next
      case al: False
      with assms False plain show ?thesis by (auto simp: settled_def)
    qed
    with False plain show ?thesis by simp
  next
    case up: True
    show ?thesis
    proof (cases res)
      case Nil
      show ?thesis
      proof (cases al)
        case True
        have "[''..''] = [] @ replicate 1 ''..''" by simp
        then have "\<exists>m k. [''..''] = m @ replicate k ''..'' \<and> ''..'' \<notin> set m"
          by (metis empty_iff empty_set)
        with True up Nil show ?thesis by (simp add: settled_def)
      next
        case False
        with up Nil show ?thesis by simp
      qed
    next
      case (Cons r rs)
      show ?thesis
      proof (cases "r = ''..''")
        case rup: True
        show ?thesis
        proof (cases al)
          case True
          with assms obtain m k where mk: "res = m @ replicate k ''..''" "''..'' \<notin> set m"
            by (auto simp: settled_def)
          with Cons rup have "m = []" by (cases m) auto
          with mk have "''..'' # res = [] @ replicate (Suc k) ''..''" by simp
          then have "\<exists>m k. ''..'' # res = m @ replicate k ''..'' \<and> ''..'' \<notin> set m"
            by (metis empty_iff empty_set)
          with assms True up Cons rup show ?thesis by (simp add: settled_def)
        next
          case False
          with assms up Cons rup show ?thesis by simp
        qed
      next
        case False
        have "settled al rs"
        proof (cases al)
          case True
          with assms obtain m k where mk: "res = m @ replicate k ''..''" "''..'' \<notin> set m"
            by (auto simp: settled_def)
          with Cons False obtain m' where "m = r # m'" by (cases m; cases k) auto
          with mk Cons have "rs = m' @ replicate k ''..'' \<and> ''..'' \<notin> set m'" by auto
          then have "\<exists>m k. rs = m @ replicate k ''..'' \<and> ''..'' \<notin> set m" by blast
          with assms True Cons show ?thesis by (simp add: settled_def)
        next
          case False
          with assms Cons show ?thesis by (simp add: settled_def)
        qed
        with up Cons False show ?thesis by simp
      qed
    qed
  qed
qed

lemma settled_normalizeString:
  "settled al res \<Longrightarrow> settled al (normalizeString xs al res)"
proof (induction xs arbitrary: res)
  case Nil
  then show ?case by simp
next
  case (Cons seg xs)
  from settled_step[OF Cons.prems, of seg] Cons.IH show ?case by simp
qed

lemma normalizeString_settled:
  "settled al res \<Longrightarrow> normalizeString (rev res) al [] = res"
proof (induction res)
  case Nil
  then show ?case by simp
next
  case (Cons top rest)
  have rest: "settled al rest"
  proof (cases al)
    case True
    with Cons.prems obtain m k where mk: "top # rest = m @ replicate k ''..''" "''..'' \<notin> set m"
      by (auto simp: settled_def)
    have "\<exists>m k. rest = m @ replicate k ''..'' \<and> ''..'' \<notin> set m"
    proof (cases m)
      case Nil
      with mk obtain k' where "k = Suc k'" "rest = replicate k' ''..''" by (cases k) auto
      then have "rest = [] @ replicate k' ''..''" by simp
      then show ?thesis by (metis empty_iff empty_set)
    next
      case (Cons a m')
      with mk have "rest = m' @ replicate k ''..'' \<and> ''..'' \<notin> set m'" by auto
      then show ?thesis by blast
    qed
    with Cons.prems True show ?thesis by (simp add: settled_def)
  next
    case False
    with Cons.prems show ?thesis by (simp add: settled_def)
  qed
  from Cons.prems have top: "top \<noteq> []" "top \<noteq> ''.''" by (auto simp: settled_def)
  have step: "normalizeString (rev (top # rest)) al [] = normalizeString [top] al rest"
    using Cons.IH[OF rest] by (simp add: normalizeString_append)
  show ?case
  proof (cases "top = ''..''")
    case False
    with top step show ?thesis by simp
  next
    case up: True
    show ?thesis
    proof (cases al)
      case True
      with Cons.prems obtain m k where mk: "top # rest = m @ replicate k ''..''" "''..'' \<notin> set m"
        by (auto simp: settled_def)
      with up have "m = []" by (cases m) auto
      with mk obtain k' where "rest = replicate k' ''..''" by (cases k) auto
      then have "rest = [] \<or> (\<exists>rs. rest = ''..'' # rs)" by (cases k') auto
      with step up True show ?thesis by auto
    next
      case False
      with Cons.prems up show ?thesis by (simp add: settled_def)
    qed
  qed
qed

lemma normalizeString_segments:
  "s \<in> set (normalizeString xs al res) \<Longrightarrow> s \<in> set xs \<or> s \<in> set res \<or> s = ''..''"
proof (induction xs arbitrary: res)
  case Nil
  then show ?case by simp
next
  case (Cons seg xs)
  from Cons.IH[OF Cons.prems[simplified]] show ?case
    by (auto split: if_splits list.splits)
qed

lemma join_with_nonempty:
  "segs \<noteq> [] \<Longrightarrow> \<forall>s \<in> set segs. s \<noteq> [] \<Longrightarrow> join_with sep segs \<noteq> []"
  by (cases segs; cases "tl segs") auto

lemma hd_join_with:
  "segs \<noteq> [] \<Longrightarrow> hd segs \<noteq> [] \<Longrightarrow> hd (join_with sep segs) = hd (hd segs)"
  by (cases segs; cases "tl segs") auto

lemma split_on_slash_first: "split_on sep (sep # t) = [] # split_on sep t"
  by simp

text \<open>A path in resolved form leads to itself.\<close>

lemma canonical_settled:
  assumes "\<forall>s \<in> set segs. CHR ''/'' \<notin> set s" and "settled (\<not> ab) (rev segs)"
  shows "canonical ((if ab then ''/'' else []) @ join_with ''/'' segs) =
         (if ab then ''/'' else []) @ join_with ''/'' segs"
proof -
  let ?J = "join_with ''/'' segs"
  from assms(2) have ne: "\<forall>s \<in> set segs. s \<noteq> []" by (auto simp: settled_def)
  have norm: "normalizeString segs (\<not> ab) [] = rev segs"
    using normalizeString_settled[OF assms(2)] by simp
  show ?thesis
  proof (cases "segs = []")
    case True
    then show ?thesis by (cases ab) (simp_all add: canonical_def)
  next
    case False
    have J: "?J \<noteq> []" using False ne by (rule join_with_nonempty)
    have hdJ: "hd ?J \<noteq> CHR ''/''"
    proof -
      from False have "hd segs \<in> set segs" by simp
      with ne assms(1) have "hd segs \<noteq> []" "CHR ''/'' \<notin> set (hd segs)" by auto
      then have "hd (hd segs) \<noteq> CHR ''/''" by (cases "hd segs") auto
      with hd_join_with[OF False \<open>hd segs \<noteq> []\<close>] show ?thesis by simp
    qed
    have sp: "split_on CHR ''/'' ?J = segs"
      using False assms(1) by (rule split_on_join)
    show ?thesis
    proof (cases ab)
      case True
      from norm True have n: "normalizeString segs False [] = rev segs" by simp
      have "canonical (CHR ''/'' # ?J) = CHR ''/'' # ?J"
        by (simp add: canonical_def sp n)
      with True show ?thesis by simp
    next
      case rel: False
      from norm rel have n: "normalizeString segs True [] = rev segs" by simp
      have "canonical ?J = ?J"
        using J hdJ by (simp add: canonical_def sp n)
      with rel show ?thesis by simp
    qed
  qed
qed

lemma canonical_form:
  "\<exists>segs. canonical path =
      (if path \<noteq> [] \<and> hd path = CHR ''/'' then ''/'' else []) @ join_with ''/'' segs \<and>
     (\<forall>s \<in> set segs. CHR ''/'' \<notin> set s) \<and>
     settled (\<not> (path \<noteq> [] \<and> hd path = CHR ''/'')) (rev segs)"
proof -
  let ?abs = "path \<noteq> [] \<and> hd path = CHR ''/''"
  let ?R = "normalizeString (split_on CHR ''/'' path) (\<not> ?abs) []"
  have st: "settled (\<not> ?abs) ?R" by (rule settled_normalizeString) simp
  have "\<forall>s \<in> set ?R. CHR ''/'' \<notin> set s"
  proof
    fix s assume "s \<in> set ?R"
    from normalizeString_segments[OF this] show "CHR ''/'' \<notin> set s"
      using split_on_no_sep[of s "CHR ''/''" path] by auto
  qed
  then have "canonical path = (if ?abs then ''/'' else []) @ join_with ''/'' (rev ?R) \<and>
     (\<forall>s \<in> set (rev ?R). CHR ''/'' \<notin> set s) \<and> settled (\<not> ?abs) (rev (rev ?R))"
    using st by (simp add: canonical_def Let_def)
  then show ?thesis by blast
qed

lemma canonical_idem [simp]: "canonical (canonical path) = canonical path"
proof -
  from canonical_form[of path] obtain segs where
    c: "canonical path =
      (if path \<noteq> [] \<and> hd path = CHR ''/'' then ''/'' else []) @ join_with ''/'' segs"
    and s: "\<forall>s \<in> set segs. CHR ''/'' \<notin> set s"
      "settled (\<not> (path \<noteq> [] \<and> hd path = CHR ''/'')) (rev segs)"
    by blast
  show ?thesis
    unfolding c by (rule canonical_settled[OF s])
qed

lemma normalize_canonical:
  assumes "path \<noteq> []" "last path \<noteq> CHR ''/''" "normalize path \<noteq> ''.''" "normalize path \<noteq> ''/''"
  shows "normalize path = canonical path"
  using assms by (auto simp add: normalize_def canonical_def Let_def split: if_splits)

lemma join_plain_dot:
  assumes "plain_names names"
  shows "join_with ''/'' names \<noteq> ''.''"
proof -
  from assms obtain n ns where n: "names = n # ns" by (cases names) (auto simp: plain_names_def)
  with assms have h: "n \<noteq> []" "n \<noteq> ''.''" by (auto simp: plain_names_def)
  show ?thesis
  proof (cases ns)
    case Nil
    with n h show ?thesis by simp
  next
    case (Cons m ms)
    have mem: "CHR ''/'' \<in> set (join_with ''/'' (n # m # ms))"
      by simp
    have "join_with ''/'' (n # m # ms) \<noteq> ''.''"
    proof
      assume e: "join_with ''/'' (n # m # ms) = ''.''"
      from mem show False unfolding e by simp
    qed
    with n Cons show ?thesis by simp
  qed
qed

text \<open>What \<^verbatim>\<open>path.join\<close> returns for plain names is a path in resolved form.\<close>

lemma path_join_canonical:
  assumes "plain_names names"
  shows "canonical (path_join (p # names)) = path_join (p # names)"
proof -
  let ?J = "join_with ''/'' names"
  let ?joined = "if p = [] then ?J else p @ CHR ''/'' # ?J"
  from assms have f: "filter (\<lambda>arg. arg \<noteq> []) names = names" "names \<noteq> []"
    by (auto simp: plain_names_def filter_id_conv)
  note J = join_plain[OF assms] join_plain_dot[OF assms]
  have pj: "path_join (p # names) = normalize ?joined"
    using f J(1) by (simp add: path_join_def join_with_Cons)
  from path_join_under[of p] assms obtain x where x: "path_join (p # names) = x @ ?J"
    by blast
  have a: "?joined \<noteq> []" using J(1) by simp
  have b: "last ?joined \<noteq> CHR ''/''" using J(1,3) by simp
  have c: "normalize ?joined \<noteq> ''.''"
  proof
    assume "normalize ?joined = ''.''"
    with pj x have "x @ ?J = ''.''" by simp
    with J(1) have "x = [] \<and> ?J = ''.''" by (cases x) auto
    with J(4) show False by simp
  qed
  have d: "normalize ?joined \<noteq> ''/''"
  proof
    assume "normalize ?joined = ''/''"
    with pj x have "x @ ?J = ''/''" by simp
    with J(1) have "x = [] \<and> ?J = ''/''" by (cases x) auto
    with J(2) show False by simp
  qed
  from normalize_canonical[OF a b c d] pj have "path_join (p # names) = canonical ?joined"
    by simp
  then show ?thesis by simp
qed

lemma generated_paths_canonical:
  "canonical (path_join [p, ''frontend'', ''Dockerfile'']) = path_join [p, ''frontend'', ''Dockerfile'']"
  "canonical (path_join [p, ''backend'', ''Dockerfile'']) = path_join [p, ''backend'', ''Dockerfile'']"
  "canonical (path_join [p, ''docker-compose.yml'']) = path_join [p, ''docker-compose.yml'']"
  "canonical (path_join [p, ''metadata.json'']) = path_join [p, ''metadata.json'']"
  by (rule path_join_canonical, simp add: plain_names_def)+

subsection \<open>The two site directories\<close>

lemma names_directory_append:
  "names_directory (d @ CHR ''/'' # n) = names_directory n"
  by (simp add: names_directory_def split_on_append_sep)

lemma names_directory_site [simp]:
  "names_directory (available_path n) = names_directory n"
  "names_directory (enabled_path n) = names_directory n"
  using names_directory_append[of "''/etc/nginx/sites-available''" n]
    names_directory_append[of "''/etc/nginx/sites-enabled''" n]
  by (simp_all add: available_path_def enabled_path_def)




section \<open>File system\<close>

lemma is_symlink_simps [simp]:
  "is_symlink None = False"
  "is_symlink (Some (File c)) = False"
  "is_symlink (Some (Symlink t)) = True"
  by (simp_all add: is_symlink_def)

lemma is_file_simps [simp]:
  "is_file None = False"
  "is_file (Some (File c)) = True"
  "is_file (Some (Symlink t)) = False"
  by (simp_all add: is_file_def)

lemma resolve_not_link: "\<not> is_symlink (fs p) \<Longrightarrow> resolve n fs p = Some p"
  by (cases n) (auto simp: is_symlink_def split: option.splits node.splits)

lemma resolve_end: "resolve n fs p = Some q \<Longrightarrow> \<not> is_symlink (fs q)"
  by (induction n arbitrary: p) (auto simp: is_symlink_def split: option.splits node.splits)

text \<open>Writing at the end of a chain of links does not change where the chain leads.\<close>

lemma resolve_write:
  "resolve n fs p = Some q \<Longrightarrow> resolve n (fs(q \<mapsto> File c)) p = Some q"
proof (induction n arbitrary: p)
  case 0
  then show ?case by (auto split: option.splits node.splits)
next
  case (Suc n)
  show ?case
  proof (cases "is_symlink (fs p)")
    case True
    then obtain t where t: "fs p = Some (Symlink t)"
      by (auto simp: is_symlink_def split: option.splits node.splits)
    with Suc.prems have r: "resolve n fs t = Some q" by simp
    from resolve_end[OF r] t have "p \<noteq> q" by auto
    with t Suc.IH[OF r] show ?thesis by simp
  next
    case False
    from resolve_not_link[of fs p "Suc n", OF False] Suc.prems(1) have "q = p"
      by (metis option.inject)
    then show ?thesis by simp
  qed
qed

text \<open>Neither does a new entry at a place that was free and is not the end of the chain.\<close>

lemma resolve_add_absent:
  "resolve n fs p = Some q \<Longrightarrow> fs e = None \<Longrightarrow> e \<noteq> q \<Longrightarrow> resolve n (fs(e \<mapsto> x)) p = Some q"
proof (induction n arbitrary: p)
  case 0
  then show ?case by (auto split: option.splits node.splits)
next
  case (Suc n)
  show ?case
  proof (cases "is_symlink (fs p)")
    case True
    then obtain t where t: "fs p = Some (Symlink t)"
      by (auto simp: is_symlink_def split: option.splits node.splits)
    with Suc.prems have r: "resolve n fs t = Some q" by simp
    from t Suc.prems have "p \<noteq> e" by auto
    with t Suc.IH[OF r Suc.prems(2,3)] show ?thesis by simp
  next
    case False
    from resolve_not_link[of fs p "Suc n", OF False] Suc.prems(1) have "q = p"
      by (metis option.inject)
    with Suc.prems False show ?thesis by (auto split: option.splits node.splits)
  qed
qed

lemma resolve_written_present:
  "resolve n fs p = Some q \<Longrightarrow> (fs(q \<mapsto> File c)) p \<noteq> None"
  by (cases n) (auto split: option.splits node.splits)

lemma read_file_written:
  "\<not> names_directory p \<Longrightarrow> resolve link_limit fs (canonical p) = Some q \<Longrightarrow>
   read_file (fs(q \<mapsto> File c)) p = Some c"
  by (simp add: read_file_def resolve_write)

lemma bind_write_file:
  "bind_io (write_file env call p c) f w =
     (case fs_error env call p of
        Some m \<Rightarrow> (Throw (Error m), w)
      | None \<Rightarrow>
         if names_directory p
         then (Throw (Error ''EISDIR: illegal operation on a directory''), w)
         else (case resolve link_limit (files w) (canonical p) of
                 None \<Rightarrow> (Throw (Error ''ELOOP: too many symbolic links encountered''), w)
               | Some q \<Rightarrow> f () (w\<lparr>files := (files w)(q \<mapsto> File c)\<rparr>)))"
  by (simp add: bind_io_def write_file_def split: option.splits)

text \<open>\<^verbatim>\<open>ensureSymlink\<close>: its outcome, and the one change it may make.\<close>

lemma ensureSymlink_fst:
  "fst (ensureSymlink env src dst w) =
     (if is_symlink (files w (canonical dst)) \<and> \<not> path_exists (files w) (canonical dst)
        then Throw (Error ''EEXIST: file already exists, symlink'')
      else if is_symlink (files w (canonical dst)) \<and> path_exists (files w) (canonical src) \<and>
              resolve link_limit (files w) (canonical dst) =
              resolve link_limit (files w) (canonical src)
        then Return ()
      else case fs_error env EnsureSymlink dst of
             Some m \<Rightarrow> Throw (Error m)
           | None \<Rightarrow>
              if files w (canonical dst) \<noteq> None \<or> names_directory dst then Return ()
              else if files w (canonical src) = None
                then Throw (Error ''absolute srcpath does not exist'')
              else Return ())"
  by (simp add: ensureSymlink_def Let_def split: option.splits)

lemma ensureSymlink_files:
  "files (snd (ensureSymlink env src dst w)) =
     (if files w (canonical dst) = None \<and> \<not> names_directory dst \<and>
         files w (canonical src) \<noteq> None \<and> fs_error env EnsureSymlink dst = None
      then (files w)(canonical dst \<mapsto> Symlink (canonical src)) else files w)"
  by (auto simp add: ensureSymlink_def Let_def split: option.splits)

lemma ensureSymlink_state:
  "snd (ensureSymlink env src dst w) = w\<lparr>files := files (snd (ensureSymlink env src dst w))\<rparr>"
  by (auto simp add: ensureSymlink_def Let_def split: option.splits)

lemma ensureSymlink_never_exits: "fst (ensureSymlink env src dst w) \<noteq> Exit n"
  by (simp add: ensureSymlink_fst split: option.splits)

lemma ensureSymlink_Throw:
  "fst (ensureSymlink env src dst w) = Throw e \<Longrightarrow> snd (ensureSymlink env src dst w) = w"
  by (auto simp add: ensureSymlink_def Let_def split: option.splits if_splits)

lemma bind_ensureSymlink:
  "bind_io (ensureSymlink env src dst) f w =
     (case fst (ensureSymlink env src dst w) of
        Return u \<Rightarrow> f () (w\<lparr>files := files (snd (ensureSymlink env src dst w))\<rparr>)
      | Throw e \<Rightarrow> (Throw e, w)
      | Exit n \<Rightarrow> (Exit n, w))"
proof (cases "fst (ensureSymlink env src dst w)")
  case (Return u)
  then show ?thesis
    using ensureSymlink_state[of env src dst w] by (simp add: bind_io_alt)
next
  case (Throw e)
  then show ?thesis
    using ensureSymlink_Throw[of env src dst w e] by (simp add: bind_io_alt)
next
  case (Exit n)
  then show ?thesis by (simp add: ensureSymlink_never_exits)
qed

text \<open>A call that returns has added the link, unless something was stored at its place.\<close>

lemma ensureSymlink_Return_files:
  assumes "fst (ensureSymlink env src dst w) = Return ()" "\<not> names_directory dst"
  shows "files (snd (ensureSymlink env src dst w)) =
     (if files w (canonical dst) = None
      then (files w)(canonical dst \<mapsto> Symlink (canonical src)) else files w)"
  using assms
  by (auto simp add: ensureSymlink_files ensureSymlink_fst split: option.splits if_splits)

lemma bind_readJson:
  "bind_io (readJson env p) f w =
     (case fs_error env ReadJson p of
        Some m \<Rightarrow> (Throw (Error m), w)
      | None \<Rightarrow> f (json_file env p) w)"
  by (simp add: bind_io_def readJson_def split: option.splits)

lemma bind_destructure:
  "bind_io (destructure doc) f w =
     (if doc = DNull then (Throw (Error ''TypeError: Cannot destructure property of null''), w)
      else f (property doc ''domain'', property doc ''frontendPort'', property doc ''backendPort'') w)"
  by (cases doc) (simp_all add: bind_io_def destructure_def return_io_def)

section \<open>add-site, step by step\<close>

lemma addSite_unfold:
  "addSite env options w =
     (if \<not> nginx_available env then (Exit 1, snd (ensureNginxInstalled env w))
      else case fs_error env ReadJson (metadata_path env options) of
             Some m \<Rightarrow> (Throw (Error m), snd (ensureNginxInstalled env w))
           | None \<Rightarrow>
              (let doc = requested_metadata env options in
               if doc = DNull
               then (Throw (Error ''TypeError: Cannot destructure property of null''),
                     snd (ensureNginxInstalled env w))
               else place_site env (property doc ''domain'') (property doc ''frontendPort'')
                      (property doc ''backendPort'') (add_domain options) (add_ssl options)
                      (snd (ensureNginxInstalled env w))))"
proof (cases "add_metadata options")
  case None
  then show ?thesis
    by (simp add: addSite_def place_site_def site_tail_def metadata_path_def
          requested_metadata_def bind_ensure bind_readJson
          bind_destructure available_path_def enabled_path_def Let_def split: option.splits)
next
  case (Some path)
  then show ?thesis
    by (simp add: addSite_def place_site_def site_tail_def metadata_path_def
          requested_metadata_def bind_ensure bind_readJson
          bind_destructure available_path_def enabled_path_def Let_def split: option.splits)
qed

lemma site_tail_fst [simp]: "fst (site_tail env d name certify w) = Return ()"
  by (simp add: site_tail_def bind_obtainSSLCertificate bind_reloadNginx console_log_def)

lemma site_tail_files [simp]: "files (snd (site_tail env d name certify w)) = files w"
  by (simp add: site_tail_def bind_obtainSSLCertificate bind_reloadNginx console_log_def
       obtainSSLCertificate_eq reloadNginx_eq)

lemma site_tail_spawned:
  "spawned (snd (site_tail env d name certify w)) =
     spawned w @ (if certify then [(certbot_command d, None)] else []) @
     [(''nginx -s reload'', None)]"
  by (simp add: site_tail_def bind_obtainSSLCertificate bind_reloadNginx console_log_def
       obtainSSLCertificate_eq reloadNginx_eq)

lemma site_tail_stderr:
  "stderr (snd (site_tail env d name certify w)) =
     stderr w @
     (if certify then (case exec_error env (certbot_command d) of
                         None \<Rightarrow> []
                       | Some m \<Rightarrow> [[Str ''Error obtaining SSL certificate:'', Str m]])
      else []) @
     (case exec_error env ''nginx -s reload'' of
        None \<Rightarrow> []
      | Some m \<Rightarrow> [[Str ''Error reloading Nginx:'', Str m]])"
  by (simp add: site_tail_def bind_obtainSSLCertificate bind_reloadNginx console_log_def
       obtainSSLCertificate_eq reloadNginx_eq)

lemma site_tail_stdout:
  "\<exists>msgs. stdout (snd (site_tail env d name certify w)) =
     stdout w @ msgs @ [[Str (''Site '' @ name @ '' added successfully!'')]]"
  by (simp add: site_tail_def bind_obtainSSLCertificate bind_reloadNginx console_log_def
       obtainSSLCertificate_eq reloadNginx_eq)

lemma place_site_tail:
  "place_site env d f b uD uS w =
     (case fs_error env OutputFile (available_path (toString (config_name d f b uD))) of
        Some m \<Rightarrow> (Throw (Error m), w)
      | None \<Rightarrow>
         if names_directory (toString (config_name d f b uD))
         then (Throw (Error ''EISDIR: illegal operation on a directory''), w)
         else
         (case resolve link_limit (files w)
                 (canonical (available_path (toString (config_name d f b uD)))) of
            None \<Rightarrow> (Throw (Error ''ELOOP: too many symbolic links encountered''), w)
          | Some q \<Rightarrow>
             bind_io (ensureSymlink env (available_path (toString (config_name d f b uD)))
                        (enabled_path (toString (config_name d f b uD))))
               (\<lambda>_. site_tail env d (toString (config_name d f b uD)) (uD \<and> uS))
               (w\<lparr>files := (files w)(q \<mapsto> File (generateNginxConfig d f b uD uS))\<rparr>)))"
  by (simp add: place_site_def outputFile_def bind_write_file Let_def)

text \<open>
  A run of the placing steps that returns has written the configuration at the end of
  the available path's chain of links, has added the link unless the enabled path was
  taken, and has then gone through the tail.
\<close>

lemma place_site_reaches_tail:
  assumes "fst (place_site env d f b uD uS w) = Return ()"
  shows "\<exists>q w2. \<not> names_directory (toString (config_name d f b uD)) \<and>
           resolve link_limit (files w)
             (canonical (available_path (toString (config_name d f b uD)))) = Some q \<and>
           place_site env d f b uD uS w =
             site_tail env d (toString (config_name d f b uD)) (uD \<and> uS) w2 \<and>
           files w2 =
             (let fs1 = (files w)(q \<mapsto> File (generateNginxConfig d f b uD uS)) in
              if fs1 (canonical (enabled_path (toString (config_name d f b uD)))) = None
              then fs1(canonical (enabled_path (toString (config_name d f b uD))) \<mapsto>
                         Symlink (canonical (available_path (toString (config_name d f b uD)))))
              else fs1) \<and>
           stdout w2 = stdout w \<and> stderr w2 = stderr w \<and> spawned w2 = spawned w"
proof -
  let ?n = "toString (config_name d f b uD)"
  let ?ap = "available_path ?n"
  let ?ep = "enabled_path ?n"
  let ?tail = "\<lambda>_::unit. site_tail env d ?n (uD \<and> uS)"
  from assms obtain q where q: "resolve link_limit (files w) (canonical ?ap) = Some q"
    and ok: "fs_error env OutputFile ?ap = None" and nd: "\<not> names_directory ?n"
    by (auto simp: place_site_tail split: option.splits if_splits)
  define w1 where "w1 = w\<lparr>files := (files w)(q \<mapsto> File (generateNginxConfig d f b uD uS))\<rparr>"
  have eq: "place_site env d f b uD uS w = bind_io (ensureSymlink env ?ap ?ep) ?tail w1"
    using q ok nd by (simp add: place_site_tail w1_def)
  have w1: "files w1 = (files w)(q \<mapsto> File (generateNginxConfig d f b uD uS))"
    "stdout w1 = stdout w" "stderr w1 = stderr w" "spawned w1 = spawned w"
    by (simp_all add: w1_def)
  define w2 where "w2 = w1\<lparr>files := files (snd (ensureSymlink env ?ap ?ep w1))\<rparr>"
  from assms eq have r: "fst (ensureSymlink env ?ap ?ep w1) = Return ()"
    by (cases "fst (ensureSymlink env ?ap ?ep w1)") (simp_all add: bind_ensureSymlink)
  with eq have "place_site env d f b uD uS w = ?tail () w2"
    by (simp add: bind_ensureSymlink w2_def)
  moreover have "stdout w2 = stdout w" "stderr w2 = stderr w" "spawned w2 = spawned w"
    by (simp_all add: w2_def w1)
  moreover have "files w2 =
        (let fs1 = (files w)(q \<mapsto> File (generateNginxConfig d f b uD uS)) in
         if fs1 (canonical ?ep) = None then fs1(canonical ?ep \<mapsto> Symlink (canonical ?ap))
         else fs1)"
    using ensureSymlink_Return_files[OF r] nd by (simp add: w2_def w1 Let_def)
  ultimately show ?thesis using q nd by (intro exI[of _ q] exI[of _ w2]) simp
qed

section \<open>add-site: what a completed run leaves behind\<close>

lemma addSite_Return:
  assumes "fst (addSite env options w) = Return ()"
  shows "nginx_available env \<and> requested_metadata env options \<noteq> DNull \<and>
    \<not> names_directory (site_name env options) \<and>
    (\<exists>q. resolve link_limit (files w) (canonical (available_path (site_name env options))) =
           Some q \<and>
       files (snd (addSite env options w)) =
         (let fs1 = (files w)(q \<mapsto> File (site_config env options)) in
          if fs1 (canonical (enabled_path (site_name env options))) = None
          then fs1(canonical (enabled_path (site_name env options)) \<mapsto>
                     Symlink (canonical (available_path (site_name env options))))
          else fs1)) \<and>
    spawned (snd (addSite env options w)) =
      spawned w @ ensure_commands env @
      (if add_domain options \<and> add_ssl options
       then [(certbot_command (site_domain env options), None)] else []) @
      [(''nginx -s reload'', None)] \<and>
    stderr (snd (addSite env options w)) =
      stderr w @
      (if add_domain options \<and> add_ssl options
       then (case exec_error env (certbot_command (site_domain env options)) of
               None \<Rightarrow> []
             | Some m \<Rightarrow> [[Str ''Error obtaining SSL certificate:'', Str m]])
       else []) @
      (case exec_error env ''nginx -s reload'' of
         None \<Rightarrow> []
       | Some m \<Rightarrow> [[Str ''Error reloading Nginx:'', Str m]]) \<and>
    (\<exists>msgs. stdout (snd (addSite env options w)) =
       stdout w @ msgs @ [[Str (''Site '' @ site_name env options @ '' added successfully!'')]])"
proof -
  let ?doc = "requested_metadata env options"
  let ?w0 = "snd (ensureNginxInstalled env w)"
  let ?d = "property ?doc ''domain''"
  let ?f = "property ?doc ''frontendPort''"
  let ?b = "property ?doc ''backendPort''"
  let ?name = "toString (config_name ?d ?f ?b (add_domain options))"
  have names: "site_name env options = ?name" "site_domain env options = ?d"
    "site_config env options = generateNginxConfig ?d ?f ?b (add_domain options) (add_ssl options)"
    by (simp_all add: site_name_def site_domain_def site_frontendPort_def site_backendPort_def
          site_config_def)
  from assms have av: "nginx_available env"
    by (auto simp: addSite_unfold split: if_splits)
  from assms av have nn: "?doc \<noteq> DNull"
    by (auto simp: addSite_unfold Let_def split: if_splits option.splits)
  from assms av nn have eq: "addSite env options w =
      place_site env ?d ?f ?b (add_domain options) (add_ssl options) ?w0"
    by (auto simp: addSite_unfold Let_def split: if_splits option.splits)
  with assms have "fst (place_site env ?d ?f ?b (add_domain options) (add_ssl options) ?w0) = Return ()"
    by simp
  from place_site_reaches_tail[OF this] obtain q w2 where
    nd: "\<not> names_directory ?name"
    and q: "resolve link_limit (files ?w0) (canonical (available_path ?name)) = Some q"
    and tail: "place_site env ?d ?f ?b (add_domain options) (add_ssl options) ?w0 =
       site_tail env ?d ?name (add_domain options \<and> add_ssl options) w2"
    and fs: "files w2 =
             (let fs1 = (files ?w0)(q \<mapsto> File (generateNginxConfig ?d ?f ?b (add_domain options) (add_ssl options))) in
              if fs1 (canonical (enabled_path ?name)) = None
              then fs1(canonical (enabled_path ?name) \<mapsto>
                         Symlink (canonical (available_path ?name)))
              else fs1)"
    and rest: "stdout w2 = stdout ?w0" "stderr w2 = stderr ?w0" "spawned w2 = spawned ?w0"
    by blast
  obtain pre where pre: "stdout ?w0 = stdout w @ pre"
    using ensure_stdout by blast
  obtain msgs where msgs: "stdout (snd (addSite env options w)) =
      stdout w2 @ msgs @ [[Str (''Site '' @ ?name @ '' added successfully!'')]]"
    using site_tail_stdout[of env ?d ?name "add_domain options \<and> add_ssl options" w2]
    by (auto simp: eq tail)
  have out: "\<exists>msgs. stdout (snd (addSite env options w)) =
       stdout w @ msgs @ [[Str (''Site '' @ site_name env options @ '' added successfully!'')]]"
    using msgs rest(1) pre by (intro exI[of _ "pre @ msgs"]) (simp add: names)
  from nd have nd': "\<not> names_directory (site_name env options)"
    by (simp add: names)
  from q have q': "resolve link_limit (files w) (canonical (available_path (site_name env options))) = Some q"
    by (simp only: ensure_files names)
  from fs have fs': "files w2 =
         (let fs1 = (files w)(q \<mapsto> File (site_config env options)) in
          if fs1 (canonical (enabled_path (site_name env options))) = None
          then fs1(canonical (enabled_path (site_name env options)) \<mapsto>
                     Symlink (canonical (available_path (site_name env options))))
          else fs1)"
    by (simp only: ensure_files names)
  have fw: "files (snd (addSite env options w)) = files w2"
    by (simp add: eq tail)
  have files: "\<exists>q. resolve link_limit (files w) (canonical (available_path (site_name env options))) = Some q \<and>
       files (snd (addSite env options w)) =
         (let fs1 = (files w)(q \<mapsto> File (site_config env options)) in
          if fs1 (canonical (enabled_path (site_name env options))) = None
          then fs1(canonical (enabled_path (site_name env options)) \<mapsto>
                     Symlink (canonical (available_path (site_name env options))))
          else fs1)"
    by (rule exI[of _ q], rule conjI[OF q'], simp only: fw fs')
  have sp: "spawned (snd (addSite env options w)) =
      spawned w @ ensure_commands env @
      (if add_domain options \<and> add_ssl options
       then [(certbot_command (site_domain env options), None)] else []) @
      [(''nginx -s reload'', None)]"
    by (simp add: eq tail site_tail_spawned rest ensure_spawned names)
  have se: "stderr (snd (addSite env options w)) =
      stderr w @
      (if add_domain options \<and> add_ssl options
       then (case exec_error env (certbot_command (site_domain env options)) of
               None \<Rightarrow> []
             | Some m \<Rightarrow> [[Str ''Error obtaining SSL certificate:'', Str m]])
       else []) @
      (case exec_error env ''nginx -s reload'' of
         None \<Rightarrow> []
       | Some m \<Rightarrow> [[Str ''Error reloading Nginx:'', Str m]])"
    using av by (simp add: eq tail site_tail_stderr rest ensure_stderr names)
  from av nn nd' files sp se out show ?thesis by blast
qed

lemma read_file_after_link:
  assumes "\<not> names_directory p" "resolve link_limit fs (canonical p) = Some q"
  shows "read_file (let fs1 = fs(q \<mapsto> File c) in if fs1 e = None then fs1(e \<mapsto> x) else fs1) p = Some c"
proof -
  let ?fs1 = "fs(q \<mapsto> File c)"
  have r: "resolve link_limit ?fs1 (canonical p) = Some q" using assms(2) by (rule resolve_write)
  show ?thesis
  proof (cases "?fs1 e = None")
    case True
    then have ne: "e \<noteq> q" by auto
    from resolve_add_absent[OF r True ne]
    have r': "resolve link_limit (?fs1(e \<mapsto> x)) (canonical p) = Some q" .
    have "(let fs1 = ?fs1 in if fs1 e = None then fs1(e \<mapsto> x) else fs1) = ?fs1(e \<mapsto> x)"
      using True by (simp only: Let_def refl if_True)
    moreover have "read_file (?fs1(e \<mapsto> x)) p = Some c"
      using ne assms(1) by (simp add: read_file_def r')
    ultimately show ?thesis by simp
  next
    case False
    then have "(let fs1 = ?fs1 in if fs1 e = None then fs1(e \<mapsto> x) else fs1) = ?fs1"
      by (simp only: Let_def if_False)
    moreover have "read_file ?fs1 p = Some c"
      using assms(1) by (simp add: read_file_def r)
    ultimately show ?thesis by simp
  qed
qed

text \<open>After a completed run the available path reads as the generated configuration.\<close>

lemma addSite_writes_config:
  assumes "fst (addSite env options w) = Return ()"
  shows "read_file (files (snd (addSite env options w))) (available_path (site_name env options)) =
     Some (site_config env options)"
proof -
  from addSite_Return[OF assms] obtain q where
    nd: "\<not> names_directory (available_path (site_name env options))"
    and q: "resolve link_limit (files w) (canonical (available_path (site_name env options))) = Some q"
    and f: "files (snd (addSite env options w)) =
         (let fs1 = (files w)(q \<mapsto> File (site_config env options)) in
          if fs1 (canonical (enabled_path (site_name env options))) = None
          then fs1(canonical (enabled_path (site_name env options)) \<mapsto>
                     Symlink (canonical (available_path (site_name env options))))
          else fs1)"
    by auto
  show ?thesis by (simp only: f read_file_after_link[OF nd q])
qed

text \<open>In the sample environment, on a fresh machine, every run of add-site completes.\<close>

lemma calm_simps [simp]:
  "exec_error (calm doc) c = None"
  "fs_error (calm doc) call p = None"
  "json_file (calm doc) p = doc"
  "typed (calm doc) n = []"
  "nginx_available (calm doc)"
  "requested_metadata (calm doc) options = doc"
  by (simp_all add: calm_def nginx_available_def requested_metadata_def)

lemma fresh_simps [simp]:
  "files fresh = (\<lambda>p. None)" "stdout fresh = []" "stderr fresh = []" "spawned fresh = []"
  by (simp_all add: fresh_def)

lemma addSite_calm_fresh:
  "doc \<noteq> DNull \<Longrightarrow>
   \<not> names_directory (toString (config_name (property doc ''domain'')
          (property doc ''frontendPort'') (property doc ''backendPort'') (add_domain options))) \<Longrightarrow>
   fst (addSite (calm doc) options fresh) = Return ()"
  by (simp add: addSite_unfold place_site_tail bind_ensureSymlink ensureSymlink_fst ensure_files
        resolve_not_link Let_def)

lemma sample_names:
  "\<not> names_directory ''example.com''" "\<not> names_directory ''site_3000_5000''"
  by (simp_all add: names_directory_def)

lemma sample_sites_return:
  "fst (addSite (calm ports_only) (flags False uS) fresh) = Return ()"
  "fst (addSite (calm example_metadata) (flags uD uS) fresh) = Return ()"
  by (rule addSite_calm_fresh;
      simp add: ports_only_def example_metadata_def property_def config_name_def flags_def
        sample_names)+

section \<open>Lines that the configuration holds whatever the metadata\<close>

lemma line_of_suffix:
  assumes "suffix (CHR ''\<newline>'' # l @ CHR ''\<newline>'' # rest) t" "single_line l"
  shows "ltrim l \<in> set (text_lines t)"
proof -
  from assms(1) obtain a where "t = a @ CHR ''\<newline>'' # l @ CHR ''\<newline>'' # rest"
    by (auto simp: suffix_def)
  with assms(2) show ?thesis by (simp only: line_between_breaks)
qed

lemma sublist_of_suffix: "suffix (x @ rest) t \<Longrightarrow> sublist x t"
  by (auto simp: suffix_def sublist_def)

lemma tls_suffix:
  "\<exists>rest. suffix (CHR ''\<newline>'' # ''    listen 443 ssl;'' @ CHR ''\<newline>'' #
       (''    ssl_certificate /etc/letsencrypt/live/'' @ toString d @ ''/fullchain.pem;'') @ CHR ''\<newline>'' #
       (''    ssl_certificate_key /etc/letsencrypt/live/'' @ toString d @ ''/privkey.pem;'') @ CHR ''\<newline>'' # rest)
     (generateNginxConfig d f b uD True)"
  apply (cases uD)
   apply (simp_all add: generateNginxConfig_def)
   apply (rule exI, (rule suffix_order.refl | rule suffix_ConsI | rule suffix_appendI)+)+
  done

lemma plain_suffix:
  "\<exists>rest. suffix (CHR ''\<newline>'' # ''    listen 80;'' @ CHR ''\<newline>'' # rest)
     (generateNginxConfig d f b uD False)"
  apply (cases uD)
   apply (simp_all add: generateNginxConfig_def)
   apply (rule exI, (rule suffix_order.refl | rule suffix_ConsI | rule suffix_appendI)+)+
  done

lemma server_name_suffix:
  "\<exists>rest. suffix (CHR ''\<newline>'' # (''    server_name '' @ toString d @ '';'') @ CHR ''\<newline>'' # rest)
     (generateNginxConfig d f b True uS)"
  apply (cases uS)
   apply (simp_all add: generateNginxConfig_def)
   apply (rule exI, (rule suffix_order.refl | rule suffix_ConsI | rule suffix_appendI)+)+
  done

lemma redirect_suffix:
  "suffix (''\<newline>server {\<newline>    listen 80;\<newline>    server_name '' @ toString d @
           '';\<newline>    return 301 https://$host$request_uri;\<newline>}\<newline>'')
     (generateNginxConfig d f b True True)"
  apply (simp add: generateNginxConfig_def)
  apply (rule suffix_order.refl | rule suffix_ConsI | rule suffix_appendI)+
  done

lemma site_name_no_domain:
  "\<not> add_domain options \<Longrightarrow>
   site_name env options =
     ''site_'' @ toString (site_frontendPort env options) @ ''_'' @
     toString (site_backendPort env options)"
  by (simp add: site_name_def config_name_def)

lemma site_name_domain:
  "add_domain options \<Longrightarrow> site_name env options = toString (site_domain env options)"
  by (simp add: site_name_def config_name_def)

lemma new_commands:
  assumes "fst (addSite env options w) = Return ()"
  shows "drop (length (spawned w)) (spawned (snd (addSite env options w))) =
      ensure_commands env @
      (if add_domain options \<and> add_ssl options
       then [(certbot_command (site_domain env options), None)] else []) @
      [(''nginx -s reload'', None)]"
  using addSite_Return[OF assms] by simp

lemma certbot_prefix: "prefix ''certbot'' (certbot_command d)"
  by (simp add: certbot_command_def)

lemma ensure_commands_no_certbot: "c \<in> set (ensure_commands env) \<Longrightarrow> \<not> prefix ''certbot'' (fst c)"
  by (auto simp: ensure_commands_def split: if_splits)

lemma indented_line:
  assumes "\<exists>rest. suffix (CHR ''\<newline>'' # (''    '' @ x) @ CHR ''\<newline>'' # rest) t"
  shows "sublist x t"
    and "single_line x \<Longrightarrow> x \<noteq> [] \<Longrightarrow> hd x \<noteq> CHR '' '' \<Longrightarrow> x \<in> set (text_lines t)"
proof -
  from assms obtain rest where s: "suffix (CHR ''\<newline>'' # (''    '' @ x) @ CHR ''\<newline>'' # rest) t"
    by blast
  then obtain zs where "t = zs @ CHR ''\<newline>'' # (''    '' @ x) @ CHR ''\<newline>'' # rest"
    by (auto simp: suffix_def)
  then have "t = (zs @ CHR ''\<newline>'' # ''    '') @ x @ (CHR ''\<newline>'' # rest)" by simp
  then show "sublist x t" unfolding sublist_def by blast
  assume x: "single_line x" "x \<noteq> []" "hd x \<noteq> CHR '' ''"
  then have "single_line (''    '' @ x)" by (simp add: single_line_def)
  from line_of_suffix[OF s this] x show "x \<in> set (text_lines t)"
    by (cases x) simp_all
qed

lemma tls_lines_suffix:
  "\<exists>rest. suffix (CHR ''\<newline>'' # (''    '' @ ''listen 443 ssl;'') @ CHR ''\<newline>'' # rest)
     (generateNginxConfig d f b uD True)"
  "\<exists>rest. suffix (CHR ''\<newline>'' # (''    '' @ (''ssl_certificate /etc/letsencrypt/live/'' @
       toString d @ ''/fullchain.pem;'')) @ CHR ''\<newline>'' # rest)
     (generateNginxConfig d f b uD True)"
  "\<exists>rest. suffix (CHR ''\<newline>'' # (''    '' @ (''ssl_certificate_key /etc/letsencrypt/live/'' @
       toString d @ ''/privkey.pem;'')) @ CHR ''\<newline>'' # rest)
     (generateNginxConfig d f b uD True)"
  by (cases uD; simp add: generateNginxConfig_def;
      rule exI, (rule suffix_order.refl | rule suffix_ConsI | rule suffix_appendI)+)+

text \<open>
  C10. An add-site run with TLS on and the domain off writes, under the name synthesized
  from the two ports, a configuration that listens on 443 with ssl and names the
  certificate and key files under \<^verbatim>\<open>/etc/letsencrypt/live/\<close> followed by the rendering of
  the metadata's domain field, whatever that field is; the run starts no certbot
  command. In any run, a certbot command is started exactly when both the domain and
  TLS are on.
\<close>

theorem C10_tls_without_domain:
  assumes "fst (addSite env options w) = Return ()"
  shows "(add_ssl options \<and> \<not> add_domain options \<longrightarrow>
           site_name env options =
             ''site_'' @ toString (site_frontendPort env options) @ ''_'' @
             toString (site_backendPort env options) \<and>
           (\<exists>t. read_file (files (snd (addSite env options w)))
                   (available_path (site_name env options)) = Some t \<and>
                ''listen 443 ssl;'' \<in> set (text_lines t) \<and>
                sublist (''ssl_certificate /etc/letsencrypt/live/'' @
                         toString (site_domain env options) @ ''/fullchain.pem;'') t \<and>
                sublist (''ssl_certificate_key /etc/letsencrypt/live/'' @
                         toString (site_domain env options) @ ''/privkey.pem;'') t \<and>
                (single_line (toString (site_domain env options)) \<longrightarrow>
                   ''ssl_certificate /etc/letsencrypt/live/'' @
                     toString (site_domain env options) @ ''/fullchain.pem;''
                     \<in> set (text_lines t) \<and>
                   ''ssl_certificate_key /etc/letsencrypt/live/'' @
                     toString (site_domain env options) @ ''/privkey.pem;''
                     \<in> set (text_lines t))) \<and>
           (\<forall>c \<in> set (drop (length (spawned w)) (spawned (snd (addSite env options w)))).
              \<not> prefix ''certbot'' (fst c))) \<and>
         ((\<exists>c \<in> set (drop (length (spawned w)) (spawned (snd (addSite env options w)))).
              prefix ''certbot'' (fst c)) =
          (add_domain options \<and> add_ssl options))"
proof -
  let ?d = "toString (site_domain env options)"
  let ?t = "site_config env options"
  let ?new = "drop (length (spawned w)) (spawned (snd (addSite env options w)))"
  have only_if: "(\<exists>c \<in> set ?new. prefix ''certbot'' (fst c)) = (add_domain options \<and> add_ssl options)"
    using ensure_commands_no_certbot[of _ env] certbot_prefix[of "site_domain env options"]
    by (auto simp: new_commands[OF assms])
  have written: "read_file (files (snd (addSite env options w)))
      (available_path (site_name env options)) = Some ?t"
    using assms by (rule addSite_writes_config)
  have tls: "''listen 443 ssl;'' \<in> set (text_lines ?t) \<and>
      sublist (''ssl_certificate /etc/letsencrypt/live/'' @ ?d @ ''/fullchain.pem;'') ?t \<and>
      sublist (''ssl_certificate_key /etc/letsencrypt/live/'' @ ?d @ ''/privkey.pem;'') ?t \<and>
      (single_line ?d \<longrightarrow>
         ''ssl_certificate /etc/letsencrypt/live/'' @ ?d @ ''/fullchain.pem;''
           \<in> set (text_lines ?t) \<and>
         ''ssl_certificate_key /etc/letsencrypt/live/'' @ ?d @ ''/privkey.pem;''
           \<in> set (text_lines ?t))"
    if on: "add_ssl options"
  proof -
    have cfg: "?t = generateNginxConfig (site_domain env options) (site_frontendPort env options)
        (site_backendPort env options) (add_domain options) True"
      using on by (simp add: site_config_def)
    show ?thesis
      unfolding cfg
      using indented_line[OF tls_lines_suffix(1)] indented_line[OF tls_lines_suffix(2)]
        indented_line[OF tls_lines_suffix(3)]
      by (simp add: single_line_def)
  qed
  show ?thesis
    using only_if written tls site_name_no_domain[of options env] by auto
qed

lemma flags_simps [simp]:
  "add_metadata (flags uD uS) = Some ''metadata.json''"
  "add_domain (flags uD uS) = uD"
  "add_ssl (flags uD uS) = uS"
  by (simp_all add: flags_def)

lemma sample_fields [simp]:
  "site_domain (calm ports_only) options = JUndefined"
  "site_frontendPort (calm ports_only) options = JStr ''3000''"
  "site_backendPort (calm ports_only) options = JStr ''5000''"
  "site_domain (calm example_metadata) options = JStr ''example.com''"
  "site_frontendPort (calm example_metadata) options = JStr ''3000''"
  "site_backendPort (calm example_metadata) options = JStr ''5000''"
  by (simp_all add: site_domain_def site_frontendPort_def site_backendPort_def property_def
        ports_only_def example_metadata_def)

lemma sample_not_null [simp]: "ports_only \<noteq> DNull" "example_metadata \<noteq> DNull"
  by (simp_all add: ports_only_def example_metadata_def)

theorem C10_tls_without_domain_witness:
  "fst (addSite (calm ports_only) (flags False True) fresh) = Return () \<and>
   site_name (calm ports_only) (flags False True) = ''site_3000_5000'' \<and>
   (\<exists>t. read_file (files (snd (addSite (calm ports_only) (flags False True) fresh)))
           ''/etc/nginx/sites-available/site_3000_5000'' = Some t \<and>
        ''listen 443 ssl;'' \<in> set (text_lines t) \<and>
        ''ssl_certificate /etc/letsencrypt/live/undefined/fullchain.pem;'' \<in> set (text_lines t) \<and>
        ''ssl_certificate_key /etc/letsencrypt/live/undefined/privkey.pem;'' \<in> set (text_lines t)) \<and>
   \<not> (\<exists>c \<in> set (spawned (snd (addSite (calm ports_only) (flags False True) fresh))).
         prefix ''certbot'' (fst c))"
proof -
  have h: "fst (addSite (calm ports_only) (flags False True) fresh) = Return ()"
    by (rule sample_sites_return)
  have n: "site_name (calm ports_only) (flags False True) = ''site_3000_5000''"
    by (simp add: site_name_def config_name_def)
  from C10_tls_without_domain[OF h] h show ?thesis
    by (auto simp add: n available_path_def single_line_def)
qed

lemma plain_line_suffix:
  "\<exists>rest. suffix (CHR ''\<newline>'' # (''    '' @ ''listen 80;'') @ CHR ''\<newline>'' # rest)
     (generateNginxConfig d f b uD False)"
  by (cases uD; simp add: generateNginxConfig_def;
      rule exI, (rule suffix_order.refl | rule suffix_ConsI | rule suffix_appendI)+)

lemma server_name_line_suffix:
  "\<exists>rest. suffix (CHR ''\<newline>'' # (''    '' @ (''server_name '' @ toString d @ '';'')) @
       CHR ''\<newline>'' # rest)
     (generateNginxConfig d f b True uS)"
  by (cases uS; simp add: generateNginxConfig_def;
      rule exI, (rule suffix_order.refl | rule suffix_ConsI | rule suffix_appendI)+)

text \<open>
  C1, as the code has it. An add-site run with the domain off writes its configuration
  under the name synthesized from the two ports. With TLS off the text has a
  \<^verbatim>\<open>listen 80;\<close> line. When the interpolated values hold no line break, the text has
  \<^verbatim>\<open>listen 80;\<close> exactly when TLS is off and \<^verbatim>\<open>listen 443 ssl;\<close> exactly when it is on,
  and in both cases no \<^verbatim>\<open>server_name\<close> line, no \<^verbatim>\<open>return\<close> line and a single server block.
\<close>

theorem C1_site_without_domain:
  assumes "fst (addSite env options w) = Return ()" and "\<not> add_domain options"
  shows "site_name env options =
           ''site_'' @ toString (site_frontendPort env options) @ ''_'' @
           toString (site_backendPort env options) \<and>
         (\<exists>t. read_file (files (snd (addSite env options w)))
                 (available_path (site_name env options)) = Some t \<and>
              (\<not> add_ssl options \<longrightarrow> ''listen 80;'' \<in> set (text_lines t)) \<and>
              (single_line (toString (site_frontendPort env options)) \<and>
               single_line (toString (site_backendPort env options)) \<and>
               (add_ssl options \<longrightarrow> single_line (toString (site_domain env options))) \<longrightarrow>
                 (''listen 80;'' \<in> set (text_lines t)) = (\<not> add_ssl options) \<and>
                 (''listen 443 ssl;'' \<in> set (text_lines t)) = add_ssl options \<and>
                 (\<forall>l \<in> set (text_lines t).
                    \<not> prefix ''server_name'' l \<and> \<not> prefix ''return'' l) \<and>
                 length (server_blocks t) = 1))"
proof -
  let ?d = "site_domain env options"
  let ?f = "site_frontendPort env options"
  let ?b = "site_backendPort env options"
  let ?t = "site_config env options"
  have written: "read_file (files (snd (addSite env options w)))
      (available_path (site_name env options)) = Some ?t"
    using assms(1) by (rule addSite_writes_config)
  have plain: "''listen 80;'' \<in> set (text_lines ?t)" if "\<not> add_ssl options"
    using that indented_line(2)[OF plain_line_suffix, of ?d ?f ?b "add_domain options"]
    by (simp add: site_config_def single_line_def)
  have lines: "(''listen 80;'' \<in> set (text_lines ?t)) = (\<not> add_ssl options) \<and>
      (''listen 443 ssl;'' \<in> set (text_lines ?t)) = add_ssl options \<and>
      (\<forall>l \<in> set (text_lines ?t). \<not> prefix ''server_name'' l \<and> \<not> prefix ''return'' l) \<and>
      length (server_blocks ?t) = 1"
    if sl: "single_line (toString ?f)" "single_line (toString ?b)"
      "add_ssl options \<longrightarrow> single_line (toString ?d)"
  proof (cases "add_ssl options")
    case True
    with sl assms(2) show ?thesis
      by (simp add: site_config_def server_blocks_def config_lines)
  next
    case False
    with sl assms(2) show ?thesis
      by (simp add: site_config_def server_blocks_def config_lines_plain)
  qed
  show ?thesis
    using written plain lines site_name_no_domain[OF assms(2), of env] by auto
qed

theorem C1_site_without_domain_witness:
  "fst (addSite (calm example_metadata) (flags False False) fresh) = Return () \<and>
   \<not> add_domain (flags False False) \<and>
   site_name (calm example_metadata) (flags False False) = ''site_3000_5000'' \<and>
   (\<exists>t. read_file (files (snd (addSite (calm example_metadata) (flags False False) fresh)))
           ''/etc/nginx/sites-available/site_3000_5000'' = Some t \<and>
        ''listen 80;'' \<in> set (text_lines t) \<and>
        ''listen 443 ssl;'' \<notin> set (text_lines t) \<and>
        length (server_blocks t) = 1)"
proof -
  have h: "fst (addSite (calm example_metadata) (flags False False) fresh) = Return ()"
    by (rule sample_sites_return)
  have n: "site_name (calm example_metadata) (flags False False) = ''site_3000_5000''"
    by (simp add: site_name_def config_name_def)
  from C1_site_without_domain[OF h] h show ?thesis
    by (auto simp add: n available_path_def single_line_def)
qed

text \<open>
  C1 as stated fails: with the domain off and TLS on (the default when only
  \<^verbatim>\<open>--no-domain\<close> is passed), the file written has no \<^verbatim>\<open>listen 80;\<close> line.
\<close>

theorem C1_listen_80_counterexample:
  "fst (addSite (calm example_metadata) (flags False True) fresh) = Return () \<and>
   read_file (files (snd (addSite (calm example_metadata) (flags False True) fresh)))
     ''/etc/nginx/sites-available/site_3000_5000'' =
     Some (generateNginxConfig (JStr ''example.com'') (JStr ''3000'') (JStr ''5000'') False True) \<and>
   ''listen 80;'' \<notin> set (text_lines
     (generateNginxConfig (JStr ''example.com'') (JStr ''3000'') (JStr ''5000'') False True))"
proof -
  have h: "fst (addSite (calm example_metadata) (flags False True) fresh) = Return ()"
    by (rule sample_sites_return)
  have n: "site_name (calm example_metadata) (flags False True) = ''site_3000_5000''"
    by (simp add: site_name_def config_name_def)
  have "''listen 80;'' \<notin> set (text_lines
     (generateNginxConfig (JStr ''example.com'') (JStr ''3000'') (JStr ''5000'') False True))"
    by (simp add: config_lines single_line_def)
  with addSite_writes_config[OF h] h show ?thesis
    by (simp add: n available_path_def site_config_def)
qed

text \<open>
  C3. An add-site run with the domain and TLS both on writes its configuration under
  the domain's name. The text has a \<^verbatim>\<open>listen 443 ssl;\<close> line and ends with a server block
  that listens on 80 for the same domain and redirects with
  \<^verbatim>\<open>return 301 https://$host$request_uri;\<close>. When the domain holds no line break the text
  has the line \<^verbatim>\<open>server_name <domain>;\<close>, and when the ports hold none either, the server
  blocks are exactly two and the second is the redirecting one.
\<close>

theorem C3_domain_with_tls:
  assumes "fst (addSite env options w) = Return ()"
    and "add_domain options" and "add_ssl options"
  shows "site_name env options = toString (site_domain env options) \<and>
         (\<exists>t. read_file (files (snd (addSite env options w)))
                 (available_path (toString (site_domain env options))) = Some t \<and>
              ''listen 443 ssl;'' \<in> set (text_lines t) \<and>
              suffix (''\<newline>server {\<newline>    listen 80;\<newline>    server_name '' @
                      toString (site_domain env options) @
                      '';\<newline>    return 301 https://$host$request_uri;\<newline>}\<newline>'') t \<and>
              (single_line (toString (site_domain env options)) \<longrightarrow>
                 ''server_name '' @ toString (site_domain env options) @ '';''
                   \<in> set (text_lines t)) \<and>
              (single_line (toString (site_domain env options)) \<and>
               single_line (toString (site_frontendPort env options)) \<and>
               single_line (toString (site_backendPort env options)) \<longrightarrow>
                 length (server_blocks t) = 2 \<and>
                 server_blocks t ! 1 =
                   [''listen 80;'',
                    ''server_name '' @ toString (site_domain env options) @ '';'',
                    ''return 301 https://$host$request_uri;'']))"
proof -
  let ?d = "site_domain env options"
  let ?f = "site_frontendPort env options"
  let ?b = "site_backendPort env options"
  let ?t = "site_config env options"
  have cfg: "?t = generateNginxConfig ?d ?f ?b True True"
    using assms(2,3) by (simp add: site_config_def)
  have name: "site_name env options = toString ?d"
    using assms(2) by (rule site_name_domain)
  have written: "read_file (files (snd (addSite env options w)))
      (available_path (toString ?d)) = Some ?t"
    using addSite_writes_config[OF assms(1)] by (simp only: name)
  have a: "''listen 443 ssl;'' \<in> set (text_lines ?t)"
    unfolding cfg using indented_line(2)[OF tls_lines_suffix(1)] by (simp add: single_line_def)
  have b: "suffix (''\<newline>server {\<newline>    listen 80;\<newline>    server_name '' @ toString ?d @
                      '';\<newline>    return 301 https://$host$request_uri;\<newline>}\<newline>'') ?t"
    unfolding cfg by (rule redirect_suffix)
  have c: "''server_name '' @ toString ?d @ '';'' \<in> set (text_lines ?t)"
    if "single_line (toString ?d)"
    unfolding cfg using that indented_line(2)[OF server_name_line_suffix]
    by (simp add: single_line_def)
  have d: "length (server_blocks ?t) = 2 \<and>
      server_blocks ?t ! 1 =
        [''listen 80;'', ''server_name '' @ toString ?d @ '';'',
         ''return 301 https://$host$request_uri;'']"
    if "single_line (toString ?d)" "single_line (toString ?f)" "single_line (toString ?b)"
    unfolding cfg using that by (simp add: server_blocks_def config_lines)
  show ?thesis
    using name written a b c d by auto
qed

theorem C3_domain_with_tls_witness:
  "fst (addSite (calm example_metadata) (flags True True) fresh) = Return () \<and>
   add_domain (flags True True) \<and> add_ssl (flags True True) \<and>
   site_name (calm example_metadata) (flags True True) = ''example.com'' \<and>
   (\<exists>t. read_file (files (snd (addSite (calm example_metadata) (flags True True) fresh)))
           ''/etc/nginx/sites-available/example.com'' = Some t \<and>
        ''server_name example.com;'' \<in> set (text_lines t) \<and>
        ''listen 443 ssl;'' \<in> set (text_lines t) \<and>
        length (server_blocks t) = 2 \<and>
        server_blocks t ! 1 =
          [''listen 80;'', ''server_name example.com;'',
           ''return 301 https://$host$request_uri;''])"
proof -
  have h: "fst (addSite (calm example_metadata) (flags True True) fresh) = Return ()"
    by (rule sample_sites_return)
  from C3_domain_with_tls[OF h] h show ?thesis
    by (auto simp add: available_path_def single_line_def)
qed

section \<open>Outcomes\<close>













section \<open>list-sites\<close>

lemma for_of_log:
  "for_of sites (\<lambda>site. console_log (g site)) w =
     (Return (), w\<lparr>stdout := stdout w @ map g sites\<rparr>)"
  by (induction sites arbitrary: w) (auto simp: bind_console_log, simp_all add: return_io_def)

lemma for_of_log_if:
  "for_of sites (\<lambda>site. if P site then console_log (g site) else return_io ()) w =
     (Return (), w\<lparr>stdout := stdout w @ map g (filter P sites)\<rparr>)"
  by (induction sites arbitrary: w) (auto simp: bind_console_log, simp_all add: return_io_def)

lemma bind_for_of_log:
  "bind_io (for_of sites (\<lambda>site. console_log (g site))) f w =
     f () (w\<lparr>stdout := stdout w @ map g sites\<rparr>)"
  by (simp add: bind_io_def for_of_log)

lemma bind_readdir:
  "bind_io (readdir env dir) f w =
     (case fs_error env Readdir dir of
        Some m \<Rightarrow> (Throw (Error m), w)
      | None \<Rightarrow> f (dir_entries env dir) w)"
  by (simp add: bind_io_def readdir_def split: option.splits)

lemma listSites_outcome:
  "fst (listSites env w) =
     (if \<not> nginx_available env then Exit 1
      else case fs_error env Readdir ''/etc/nginx/sites-available'' of
             Some m \<Rightarrow> Throw (Error m)
           | None \<Rightarrow>
              (case fs_error env Readdir ''/etc/nginx/sites-enabled'' of
                 Some m \<Rightarrow> Throw (Error m)
               | None \<Rightarrow> Return ()))"
  by (simp add: listSites_def bind_ensure bind_readdir bind_console_log bind_for_of_log
        for_of_log_if split: option.splits)

lemma listSites_stdout:
  assumes "nginx_available env"
    and "fs_error env Readdir ''/etc/nginx/sites-available'' = None"
    and "fs_error env Readdir ''/etc/nginx/sites-enabled'' = None"
  shows "stdout (snd (listSites env w)) =
     stdout (snd (ensureNginxInstalled env w)) @
     spec_listing (dir_entries env ''/etc/nginx/sites-available'')
                  (dir_entries env ''/etc/nginx/sites-enabled'')"
  using assms
  by (simp add: listSites_def bind_ensure bind_readdir bind_console_log bind_for_of_log
        for_of_log_if spec_listing_def enabled_line_def disabled_line_def)


lemma tags_differ [simp]: "enabled_line s \<noteq> disabled_line s'"
proof
  assume "enabled_line s = disabled_line s'"
  then have "rev (s @ '' (enabled)'') = rev (s' @ '' (disabled)'')"
    by (simp add: enabled_line_def disabled_line_def)
  then show False by simp
qed

lemma tags_differ' [simp]: "disabled_line s' \<noteq> enabled_line s"
  using tags_differ[of s s'] by metis

lemma enabled_line_inj [simp]: "(enabled_line s = enabled_line s') = (s = s')"
  by (simp add: enabled_line_def)

lemma disabled_line_inj [simp]: "(disabled_line s = disabled_line s') = (s = s')"
  by (simp add: disabled_line_def)

lemma count_list_map_inj:
  "(\<And>x. (f x = f s) = (x = s)) \<Longrightarrow> count_list (map f xs) (f s) = count_list xs s"
  by (induction xs) simp_all

lemma count_list_absent: "y \<notin> set xs \<Longrightarrow> count_list xs y = 0"
  by (induction xs) auto

lemma count_list_distinct: "distinct xs \<Longrightarrow> s \<in> set xs \<Longrightarrow> count_list xs s = 1"
  by (induction xs) (auto simp: count_list_absent)

lemma spec_listing_counts:
  "count_list (spec_listing av en) (enabled_line s) = count_list en s"
  "count_list (spec_listing av en) (disabled_line s) =
     (if s \<in> set en then 0 else count_list av s)"
proof -
  have a: "count_list (map disabled_line xs) (enabled_line s) = 0" for xs
    by (intro count_list_absent) auto
  have b: "count_list (map enabled_line xs) (disabled_line s) = 0" for xs
    by (intro count_list_absent) auto
  have c: "count_list (filter (\<lambda>site. site \<notin> set en) av) s =
      (if s \<in> set en then 0 else count_list av s)"
    by (induction av) auto
  show "count_list (spec_listing av en) (enabled_line s) = count_list en s"
    by (simp add: spec_listing_def a count_list_map_inj[of enabled_line])
       (simp add: enabled_line_def)
  show "count_list (spec_listing av en) (disabled_line s) =
     (if s \<in> set en then 0 else count_list av s)"
    by (simp add: spec_listing_def b c count_list_map_inj[of disabled_line])
       (simp add: disabled_line_def)
qed

text \<open>
  C9. When the web server is present and both directories can be read, list-sites
  returns and prints, after the messages of the presence check, exactly the listing of
  the specification: the heading, every enabled entry tagged enabled, the second
  heading, every available entry that is not enabled tagged disabled. Directory
  listings hold no name twice, so each enabled entry is printed once with the enabled
  tag, each available entry that is not enabled once with the disabled tag, and an
  entry of the enabled directory never with the disabled tag.
\<close>

theorem C9_list_sites:
  assumes "nginx_available env"
    and "fs_error env Readdir ''/etc/nginx/sites-available'' = None"
    and "fs_error env Readdir ''/etc/nginx/sites-enabled'' = None"
    and "distinct (dir_entries env ''/etc/nginx/sites-available'')"
    and "distinct (dir_entries env ''/etc/nginx/sites-enabled'')"
  shows "fst (listSites env w) = Return () \<and>
    stdout (snd (listSites env w)) =
      stdout (snd (ensureNginxInstalled env w)) @
      spec_listing (dir_entries env ''/etc/nginx/sites-available'')
                   (dir_entries env ''/etc/nginx/sites-enabled'') \<and>
    (\<forall>s \<in> set (dir_entries env ''/etc/nginx/sites-enabled'').
       count_list (spec_listing (dir_entries env ''/etc/nginx/sites-available'')
                                (dir_entries env ''/etc/nginx/sites-enabled''))
                  (enabled_line s) = 1 \<and>
       count_list (spec_listing (dir_entries env ''/etc/nginx/sites-available'')
                                (dir_entries env ''/etc/nginx/sites-enabled''))
                  (disabled_line s) = 0) \<and>
    (\<forall>s \<in> set (dir_entries env ''/etc/nginx/sites-available'').
       s \<notin> set (dir_entries env ''/etc/nginx/sites-enabled'') \<longrightarrow>
       count_list (spec_listing (dir_entries env ''/etc/nginx/sites-available'')
                                (dir_entries env ''/etc/nginx/sites-enabled''))
                  (disabled_line s) = 1)"
  using assms
  by (simp add: listSites_outcome listSites_stdout spec_listing_counts count_list_distinct)

lemma listing_simps [simp]:
  "nginx_available (listing av en)"
  "fs_error (listing av en) call p = None"
  "exec_error (listing av en) c = None"
  "dir_entries (listing av en) ''/etc/nginx/sites-available'' = av"
  "dir_entries (listing av en) ''/etc/nginx/sites-enabled'' = en"
  by (simp_all add: listing_def nginx_available_def calm_def)

lemma ensure_present:
  "exec_error env ''which nginx'' = None \<Longrightarrow>
   ensureNginxInstalled env w =
     (Return (), w\<lparr>stdout := stdout w @ [[Str ''Nginx is already installed.'']],
                   spawned := spawned w @ [(''which nginx'', None)]\<rparr>)"
  by (simp add: ensureNginxInstalled_def io_defs)

theorem C9_list_sites_witness:
  "nginx_available (listing [''default'', ''example.com'', ''site_3000_5000''] [''example.com'']) \<and>
   distinct [''default'', ''example.com'', ''site_3000_5000''] \<and> distinct [''example.com''] \<and>
   fst (listSites (listing [''default'', ''example.com'', ''site_3000_5000''] [''example.com''])
          fresh) = Return () \<and>
   stdout (snd (listSites (listing [''default'', ''example.com'', ''site_3000_5000'']
                             [''example.com'']) fresh)) =
     [[Str ''Nginx is already installed.''],
      [Str ''Active sites:''],
      [Str ''- example.com (enabled)''],
      [Str ''\<newline>Available sites:''],
      [Str ''- default (disabled)''],
      [Str ''- site_3000_5000 (disabled)'']]"
  using C9_list_sites[of "listing [''default'', ''example.com'', ''site_3000_5000''] [''example.com'']"
      fresh]
  by (simp add: ensure_present spec_listing_def enabled_line_def disabled_line_def)

section \<open>Which failures end a run of the Site Manager Tool\<close>

lemma with_commands_simps [simp]:
  "exec_error (with_commands env g) = g"
  "fs_error (with_commands env g) = fs_error env"
  "json_file (with_commands env g) = json_file env"
  "dir_entries (with_commands env g) = dir_entries env"
  "typed (with_commands env g) = typed env"
  "confirm_typed (with_commands env g) = confirm_typed env"
  by (simp_all add: with_commands_def)


lemma with_commands_prompt [simp]:
  "prompt_input (with_commands env g) name dflt = prompt_input env name dflt"
  by (simp add: prompt_input_def)

lemma with_commands_paths [simp]:
  "metadata_path (with_commands env g) options = metadata_path env options"
  "requested_metadata (with_commands env g) options = requested_metadata env options"
  "site_domain (with_commands env g) options = site_domain env options"
  "site_frontendPort (with_commands env g) options = site_frontendPort env options"
  "site_backendPort (with_commands env g) options = site_backendPort env options"
  "removal_target (with_commands env g) od = removal_target env od"
  by (simp_all add: metadata_path_def requested_metadata_def site_domain_def
        site_frontendPort_def site_backendPort_def removal_target_def
        split: option.splits)





lemma ensure_commands_unavailable:
  "\<not> nginx_available env \<Longrightarrow>
   ensure_commands env =
     (if exec_error env ''sudo apt-get update'' = None
      then [(''which nginx'', None), (''sudo apt-get update'', None),
            (''sudo apt-get install -y nginx'', None)]
      else [(''which nginx'', None), (''sudo apt-get update'', None)])"
  by (auto simp: nginx_available_def ensure_commands_def)







lemma failing_simps [simp]:
  "exec_error (failing doc commands) c =
     (if c \<in> set commands then Some (''Command failed: '' @ c) else None)"
  "fs_error (failing doc commands) call p = None"
  "json_file (failing doc commands) p = doc"
  "typed (failing doc commands) n = []"
  "requested_metadata (failing doc commands) options = doc"
  by (simp_all add: failing_def calm_def requested_metadata_def)



section \<open>remove-site\<close>

lemma below_refl [simp]: "below p p"
  by (simp add: below_def)


lemma removed_simps [simp]:
  "removed p fs p = None"
  "removed p (removed p fs) = removed p fs"
  by (auto simp: removed_def)

lemma removed_commute: "removed p (removed q fs) = removed q (removed p fs)"
  by (auto simp: removed_def)


lemma absent_removed [simp]: "absent (removed p fs) p"
  by (simp add: absent_def removed_def)


























section \<open>The two directories\<close>

lemma site_paths [simp]:
  "(available_path a = available_path b) = (a = b)"
  "(enabled_path a = enabled_path b) = (a = b)"
  "available_path a \<noteq> enabled_path b"
  "enabled_path b \<noteq> available_path a"
  "prefix (available_path d @ s) (available_path n) = prefix (d @ s) n"
  "prefix (enabled_path d @ s) (enabled_path n) = prefix (d @ s) n"
  "\<not> prefix (available_path d @ s) (enabled_path n)"
  "\<not> prefix (enabled_path d @ s) (available_path n)"
  by (simp_all add: available_path_def enabled_path_def)

lemma below_site [simp]:
  "below (available_path d) (available_path n) = (n = d \<or> prefix (d @ ''/'') n)"
  "below (enabled_path d) (enabled_path n) = (n = d \<or> prefix (d @ ''/'') n)"
  "\<not> below (available_path d) (enabled_path n)"
  "\<not> below (enabled_path d) (available_path n)"
proof -
  have ne: "available_path d \<noteq> []" "available_path d \<noteq> ''/''"
    "enabled_path d \<noteq> []" "enabled_path d \<noteq> ''/''"
    by (simp_all add: available_path_def enabled_path_def)
  show "below (available_path d) (available_path n) = (n = d \<or> prefix (d @ ''/'') n)"
    "below (enabled_path d) (enabled_path n) = (n = d \<or> prefix (d @ ''/'') n)"
    "\<not> below (available_path d) (enabled_path n)"
    "\<not> below (enabled_path d) (available_path n)"
    using ne by (simp_all add: below_def)
qed














lemma strict_simps [simp]:
  "exec_error (strict doc) c = None"
  "fs_error (strict doc) call p =
     (if call = EnsureSymlink then Some ''EEXIST: file already exists'' else None)"
  "json_file (strict doc) p = doc"
  "nginx_available (strict doc)"
  "requested_metadata (strict doc) options = doc"
  by (simp_all add: strict_def calm_def nginx_available_def requested_metadata_def)

lemma example_site [simp]:
  "site_name (calm example_metadata) (flags True uS) = ''example.com''"
  "site_name (strict example_metadata) (flags True uS) = ''example.com''"
  by (simp_all add: site_name_def config_name_def site_domain_def property_def
        example_metadata_def)






section \<open>The App Setup Tool: which failures end a run\<close>

lemma bind_io_assoc: "bind_io (bind_io m f) g = bind_io m (\<lambda>x. bind_io (f x) g)"
  by (rule ext) (simp add: bind_io_def split: prod.splits result.splits)

lemma promptForMissingOptions_eq:
  "promptForMissingOptions env options = return_io (resolved_options env options)"
  by (simp add: promptForMissingOptions_def resolved_options_def)

lemma main_split:
  assumes "resolved_options env options = (p, d, f, b, pm2)"
  shows "main env options = bind_io (generation_steps env p d f b) (\<lambda>_. setup_tail env p pm2)"
  using assms
  by (simp add: main_def promptForMissingOptions_eq generation_steps_def setup_tail_def
        bind_io_assoc)

lemma startDockerContainers_eq:
  "startDockerContainers env p w =
   (Return (),
    w\<lparr>stdout := stdout w @ (case exec_error env ''docker-compose up -d'' of
                               None \<Rightarrow> [[Str ''Starting Docker containers...''],
                                         [Str ''Docker containers started successfully.'']]
                             | Some m \<Rightarrow> [[Str ''Starting Docker containers...'']]),
      stderr := stderr w @ (case exec_error env ''docker-compose up -d'' of
                               None \<Rightarrow> []
                             | Some m \<Rightarrow> [[Str ''Error starting Docker containers:'', Str m]]),
      spawned := spawned w @ [(''docker-compose up -d'', Some p)]\<rparr>)"
  unfolding startDockerContainers_def by (rule guarded_command)

lemma installPM2_eq:
  "installPM2 env p w =
   (Return (),
    w\<lparr>stdout := stdout w @ (case exec_error env ''npm install -g pm2'' of
                               None \<Rightarrow> [[Str ''Installing PM2...''],
                                         [Str ''PM2 installed successfully.'']]
                             | Some m \<Rightarrow> [[Str ''Installing PM2...'']]),
      stderr := stderr w @ (case exec_error env ''npm install -g pm2'' of
                               None \<Rightarrow> []
                             | Some m \<Rightarrow> [[Str ''Error installing PM2:'', Str m]]),
      spawned := spawned w @ [(''npm install -g pm2'', Some p)]\<rparr>)"
  unfolding installPM2_def by (rule guarded_command)

lemma setup_tail_fst [simp]: "fst (setup_tail env p pm2 w) = Return ()"
  by (cases pm2)
     (simp_all add: setup_tail_def bind_io_alt startDockerContainers_eq installPM2_eq
        console_log_def return_io_def)

lemma setup_tail_stdout:
  "\<exists>msgs. stdout (snd (setup_tail env p pm2 w)) =
     stdout w @ msgs @ [[Str ''App setup completed successfully!'']]"
  by (cases pm2)
     (simp_all add: setup_tail_def bind_io_alt startDockerContainers_eq installPM2_eq
        console_log_def return_io_def)

lemma setup_tail_stderr:
  "stderr (snd (setup_tail env p pm2 w)) =
     stderr w @
     (case exec_error env ''docker-compose up -d'' of
        None \<Rightarrow> []
      | Some m \<Rightarrow> [[Str ''Error starting Docker containers:'', Str m]]) @
     (if pm2 then (case exec_error env ''npm install -g pm2'' of
                     None \<Rightarrow> []
                   | Some m \<Rightarrow> [[Str ''Error installing PM2:'', Str m]])
      else [])"
  by (cases pm2)
     (simp_all add: setup_tail_def bind_io_alt startDockerContainers_eq installPM2_eq
        console_log_def return_io_def)

lemma setup_tail_spawned:
  "spawned (snd (setup_tail env p pm2 w)) =
     spawned w @ [(''docker-compose up -d'', Some p)] @
     (if pm2 then [(''npm install -g pm2'', Some p)] else [])"
  by (cases pm2)
     (simp_all add: setup_tail_def bind_io_alt startDockerContainers_eq installPM2_eq
        console_log_def return_io_def)

lemma write_file_rest:
  "fst (write_file env call p c w) \<noteq> Exit n"
  "stdout (snd (write_file env call p c w)) = stdout w"
  "stderr (snd (write_file env call p c w)) = stderr w"
  "spawned (snd (write_file env call p c w)) = spawned w"
  by (simp_all add: write_file_def split: option.splits)

text \<open>Writing a file and reporting it: no exit, nothing on standard error, no command.\<close>

lemma write_and_log:
  "fst (bind_io (write_file env call p c) (\<lambda>_. console_log a) w) \<noteq> Exit n"
  "stderr (snd (bind_io (write_file env call p c) (\<lambda>_. console_log a) w)) = stderr w"
  "spawned (snd (bind_io (write_file env call p c) (\<lambda>_. console_log a) w)) = spawned w"
  "\<exists>msgs. stdout (snd (bind_io (write_file env call p c) (\<lambda>_. console_log a) w)) = stdout w @ msgs"
  by (simp_all add: bind_write_file console_log_def split: option.splits)

lemma quiet_bind: "quiet m \<Longrightarrow> quiet k \<Longrightarrow> quiet (bind_io m (\<lambda>_. k))"
  unfolding quiet_def
proof (intro allI conjI)
  fix w n
  assume m: "\<forall>w. (\<forall>n. fst (m w) \<noteq> Exit n) \<and> stderr (snd (m w)) = stderr w \<and>
                  spawned (snd (m w)) = spawned w \<and>
                  (\<exists>msgs. stdout (snd (m w)) = stdout w @ msgs)"
    and k: "\<forall>w. (\<forall>n. fst (k w) \<noteq> Exit n) \<and> stderr (snd (k w)) = stderr w \<and>
                  spawned (snd (k w)) = spawned w \<and>
                  (\<exists>msgs. stdout (snd (k w)) = stdout w @ msgs)"
  show "fst (bind_io m (\<lambda>_. k) w) \<noteq> Exit n"
    using m k by (cases "fst (m w)") (simp_all add: bind_io_alt)
  show "stderr (snd (bind_io m (\<lambda>_. k) w)) = stderr w"
    using m k by (cases "fst (m w)") (simp_all add: bind_io_alt)
  show "spawned (snd (bind_io m (\<lambda>_. k) w)) = spawned w"
    using m k by (cases "fst (m w)") (simp_all add: bind_io_alt)
  from m obtain a where a: "stdout (snd (m w)) = stdout w @ a" by blast
  from k obtain b where b: "stdout (snd (k (snd (m w)))) = stdout (snd (m w)) @ b" by blast
  show "\<exists>msgs. stdout (snd (bind_io m (\<lambda>_. k) w)) = stdout w @ msgs"
    using a b by (cases "fst (m w)") (simp_all add: bind_io_alt)
qed

lemma quiet_write: "quiet (write_file env call p c)"
  unfolding quiet_def by (simp add: write_file_rest)

lemma quiet_log: "quiet (console_log a)"
  unfolding quiet_def by (simp add: console_log_def)

lemma quiet_generation: "quiet (generation_steps env p d f b)"
  unfolding generation_steps_def generateDockerfiles_def generateDockerCompose_def
    generateMetadata_def outputFile_def writeJson_def Let_def
  by (intro quiet_bind quiet_write quiet_log)

lemma generation_rest:
  "fst (generation_steps env p d f b w) \<noteq> Exit n"
  "stderr (snd (generation_steps env p d f b w)) = stderr w"
  "spawned (snd (generation_steps env p d f b w)) = spawned w"
  using quiet_generation[of env p d f b] unfolding quiet_def by blast+

lemma try_catch_alt:
  "try_catch m h w =
     (case fst (m w) of
        Return a \<Rightarrow> (Return a, snd (m w))
      | Throw e \<Rightarrow> h e (snd (m w))
      | Exit n \<Rightarrow> (Exit n, snd (m w)))"
  by (simp add: try_catch_def split: prod.splits result.splits)

lemma app_setup_cli_Return:
  assumes "resolved_options env options = (p, d, f, b, pm2)"
    and "fst (generation_steps env p d f b w) = Return ()"
  shows "app_setup_cli env options w = setup_tail env p pm2 (snd (generation_steps env p d f b w))"
proof -
  have "fst (setup_tail env p pm2 (snd (generation_steps env p d f b w))) = Return ()"
    by simp
  then show ?thesis
    using assms(2)
    by (simp add: app_setup_cli_def main_split[OF assms(1)] try_catch_alt bind_io_alt
          prod_eq_iff)
qed

lemma app_setup_cli_Throw:
  assumes "resolved_options env options = (p, d, f, b, pm2)"
    and "fst (generation_steps env p d f b w) = Throw e"
  shows "app_setup_cli env options w =
         (Exit 1, (snd (generation_steps env p d f b w))
                    \<lparr>stderr := stderr w @ [[Str ''An error occurred:'', Err e]]\<rparr>)"
  using assms(2) generation_rest(2)[of env p d f b w]
  by (simp add: app_setup_cli_def main_split[OF assms(1)] try_catch_alt bind_io_alt
        console_error_def process_exit_def)

text \<open>
  C7. In the App Setup Tool the container launch and the PM2 installation always return;
  the failure of their command is logged to standard error. A run of the tool never ends
  with an uncaught error. It ends with \<^verbatim>\<open>process.exit\<close> exactly when one of the
  file-generation steps throws, and then with status 1, the error printed to standard
  error after \<^verbatim>\<open>An error occurred:\<close> and no command run. When the files are generated the
  run returns (status 0), whatever happens to the two commands: its last line of output
  is the completion message and standard error holds the messages of the commands that
  failed.
\<close>

theorem C7_only_generation_is_fatal:
  assumes "resolved_options env options = (p, d, f, b, pm2)"
  shows
  "fst (startDockerContainers env p w) = Return () \<and>
   stderr (snd (startDockerContainers env p w)) =
     stderr w @ (case exec_error env ''docker-compose up -d'' of
                   None \<Rightarrow> []
                 | Some m \<Rightarrow> [[Str ''Error starting Docker containers:'', Str m]]) \<and>
   fst (installPM2 env p w) = Return () \<and>
   stderr (snd (installPM2 env p w)) =
     stderr w @ (case exec_error env ''npm install -g pm2'' of
                   None \<Rightarrow> []
                 | Some m \<Rightarrow> [[Str ''Error installing PM2:'', Str m]]) \<and>
   fst (app_setup_cli env options w) \<noteq> Throw e \<and>
   (fst (app_setup_cli env options w) = Exit n) =
     ((\<exists>e'. fst (generation_steps env p d f b w) = Throw e') \<and> n = 1) \<and>
   (fst (generation_steps env p d f b w) = Return () \<longrightarrow>
      fst (app_setup_cli env options w) = Return () \<and>
      exit_status (fst (app_setup_cli env options w)) = 0 \<and>
      (\<exists>msgs. stdout (snd (app_setup_cli env options w)) =
         stdout w @ msgs @ [[Str ''App setup completed successfully!'']]) \<and>
      stderr (snd (app_setup_cli env options w)) =
        stderr w @
        (case exec_error env ''docker-compose up -d'' of
           None \<Rightarrow> []
         | Some m \<Rightarrow> [[Str ''Error starting Docker containers:'', Str m]]) @
        (if pm2 then (case exec_error env ''npm install -g pm2'' of
                        None \<Rightarrow> []
                      | Some m \<Rightarrow> [[Str ''Error installing PM2:'', Str m]])
         else []) \<and>
      spawned (snd (app_setup_cli env options w)) =
        spawned w @ [(''docker-compose up -d'', Some p)] @
        (if pm2 then [(''npm install -g pm2'', Some p)] else [])) \<and>
   (fst (generation_steps env p d f b w) = Throw e \<longrightarrow>
      fst (app_setup_cli env options w) = Exit 1 \<and>
      exit_status (fst (app_setup_cli env options w)) = 1 \<and>
      stderr (snd (app_setup_cli env options w)) =
        stderr w @ [[Str ''An error occurred:'', Err e]] \<and>
      spawned (snd (app_setup_cli env options w)) = spawned w)"
proof -
  let ?g = "generation_steps env p d f b w"
  have tail: "fst ?g = Return () \<Longrightarrow>
      app_setup_cli env options w = setup_tail env p pm2 (snd ?g)"
    by (rule app_setup_cli_Return[OF assms])
  have thrown: "\<And>e'. fst ?g = Throw e' \<Longrightarrow>
      app_setup_cli env options w =
        (Exit 1, (snd ?g)\<lparr>stderr := stderr w @ [[Str ''An error occurred:'', Err e']]\<rparr>)"
    by (rule app_setup_cli_Throw[OF assms])
  have out: "fst ?g = Return () \<Longrightarrow>
      \<exists>msgs. stdout (snd (app_setup_cli env options w)) =
         stdout w @ msgs @ [[Str ''App setup completed successfully!'']]"
  proof -
    assume r: "fst ?g = Return ()"
    from quiet_generation[of env p d f b] obtain a where a: "stdout (snd ?g) = stdout w @ a"
      unfolding quiet_def by blast
    from setup_tail_stdout[of env p pm2 "snd ?g"] obtain c where
      "stdout (snd (setup_tail env p pm2 (snd ?g))) =
         stdout (snd ?g) @ c @ [[Str ''App setup completed successfully!'']]"
      by blast
    then have "stdout (snd (app_setup_cli env options w)) =
         stdout w @ (a @ c) @ [[Str ''App setup completed successfully!'']]"
      using a tail[OF r] by simp
    then show ?thesis by blast
  qed
  have never: "fst (app_setup_cli env options w) \<noteq> Throw e"
    using tail thrown generation_rest(1)[of env p d f b w]
    by (cases "fst ?g") auto
  have exits: "(fst (app_setup_cli env options w) = Exit n) =
     ((\<exists>e'. fst ?g = Throw e') \<and> n = 1)"
    using tail thrown generation_rest(1)[of env p d f b w]
    by (cases "fst ?g") auto
  have returned: "fst ?g = Return () \<longrightarrow>
      fst (app_setup_cli env options w) = Return () \<and>
      exit_status (fst (app_setup_cli env options w)) = 0 \<and>
      stderr (snd (app_setup_cli env options w)) =
        stderr w @
        (case exec_error env ''docker-compose up -d'' of
           None \<Rightarrow> []
         | Some m \<Rightarrow> [[Str ''Error starting Docker containers:'', Str m]]) @
        (if pm2 then (case exec_error env ''npm install -g pm2'' of
                        None \<Rightarrow> []
                      | Some m \<Rightarrow> [[Str ''Error installing PM2:'', Str m]])
         else []) \<and>
      spawned (snd (app_setup_cli env options w)) =
        spawned w @ [(''docker-compose up -d'', Some p)] @
        (if pm2 then [(''npm install -g pm2'', Some p)] else [])"
    using tail
    by (simp add: setup_tail_stderr setup_tail_spawned generation_rest)
  have failed: "fst ?g = Throw e \<longrightarrow>
      fst (app_setup_cli env options w) = Exit 1 \<and>
      exit_status (fst (app_setup_cli env options w)) = 1 \<and>
      stderr (snd (app_setup_cli env options w)) =
        stderr w @ [[Str ''An error occurred:'', Err e]] \<and>
      spawned (snd (app_setup_cli env options w)) = spawned w"
    using thrown[of e] by (simp add: generation_rest)
  show ?thesis
    using out never exits returned failed
    by (simp add: startDockerContainers_eq installPM2_eq)
qed

lemma hostile_simps [simp]:
  "exec_error hostile c = Some (''Command failed: '' @ c)"
  "fs_error hostile call path =
     (if prefix ''/readonly'' path then Some ''EROFS: read-only file system'' else None)"
  by (simp_all add: hostile_def calm_def)

lemma setup_in_resolved:
  "p \<noteq> [] \<Longrightarrow>
   resolved_options env (setup_in p) = (p, ''example.com'', ''8080'', ''9090'', True)"
  by (simp add: resolved_options_def setup_in_def option_or_prompt_def)

lemma gen_srv: "fst (generation_steps hostile ''/srv/app'' ''example.com'' ''8080'' ''9090'' fresh) = Return ()"
  by code_simp

lemma gen_ro: "fst (generation_steps hostile ''/readonly/app'' ''example.com'' ''8080'' ''9090'' fresh) = Throw (Error ''EROFS: read-only file system'')"
  by code_simp

theorem C7_only_generation_is_fatal_witness:
  "resolved_options hostile (setup_in ''/srv/app'') =
     (''/srv/app'', ''example.com'', ''8080'', ''9090'', True) \<and>
   fst (generation_steps hostile ''/srv/app'' ''example.com'' ''8080'' ''9090'' fresh) =
     Return () \<and>
   fst (app_setup_cli hostile (setup_in ''/srv/app'') fresh) = Return () \<and>
   exit_status (fst (app_setup_cli hostile (setup_in ''/srv/app'') fresh)) = 0 \<and>
   stderr (snd (app_setup_cli hostile (setup_in ''/srv/app'') fresh)) =
     [[Str ''Error starting Docker containers:'', Str ''Command failed: docker-compose up -d''],
      [Str ''Error installing PM2:'', Str ''Command failed: npm install -g pm2'']] \<and>
   resolved_options hostile (setup_in ''/readonly/app'') =
     (''/readonly/app'', ''example.com'', ''8080'', ''9090'', True) \<and>
   fst (generation_steps hostile ''/readonly/app'' ''example.com'' ''8080'' ''9090'' fresh) =
     Throw (Error ''EROFS: read-only file system'') \<and>
   fst (app_setup_cli hostile (setup_in ''/readonly/app'') fresh) = Exit 1 \<and>
   stderr (snd (app_setup_cli hostile (setup_in ''/readonly/app'') fresh)) =
     [[Str ''An error occurred:'', Err (Error ''EROFS: read-only file system'')]] \<and>
   spawned (snd (app_setup_cli hostile (setup_in ''/readonly/app'') fresh)) = []"
proof -
  have r1: "resolved_options hostile (setup_in ''/srv/app'') =
     (''/srv/app'', ''example.com'', ''8080'', ''9090'', True)"
    by (simp add: setup_in_resolved)
  have r2: "resolved_options hostile (setup_in ''/readonly/app'') =
     (''/readonly/app'', ''example.com'', ''8080'', ''9090'', True)"
    by (simp add: setup_in_resolved)
  note good = C7_only_generation_is_fatal[OF r1, where w=fresh and n=1
      and e="Error ''EROFS: read-only file system''"]
  note bad = C7_only_generation_is_fatal[OF r2, where w=fresh and n=1
      and e="Error ''EROFS: read-only file system''"]
  from good gen_srv
  have a: "fst (app_setup_cli hostile (setup_in ''/srv/app'') fresh) = Return () \<and>
      exit_status (fst (app_setup_cli hostile (setup_in ''/srv/app'') fresh)) = 0 \<and>
      stderr (snd (app_setup_cli hostile (setup_in ''/srv/app'') fresh)) =
        stderr fresh @
        (case exec_error hostile ''docker-compose up -d'' of
           None \<Rightarrow> []
         | Some m \<Rightarrow> [[Str ''Error starting Docker containers:'', Str m]]) @
        (if True then (case exec_error hostile ''npm install -g pm2'' of
                        None \<Rightarrow> []
                      | Some m \<Rightarrow> [[Str ''Error installing PM2:'', Str m]])
         else [])"
    by blast
  from bad gen_ro
  have b: "fst (app_setup_cli hostile (setup_in ''/readonly/app'') fresh) = Exit 1 \<and>
      stderr (snd (app_setup_cli hostile (setup_in ''/readonly/app'') fresh)) =
        stderr fresh @ [[Str ''An error occurred:'', Err (Error ''EROFS: read-only file system'')]] \<and>
      spawned (snd (app_setup_cli hostile (setup_in ''/readonly/app'') fresh)) = spawned fresh"
    by blast
  show ?thesis
    using a b r1 r2 gen_srv gen_ro by simp
qed

section \<open>The metadata file read back\<close>

lemma hex_value_digit: "n < 16 \<Longrightarrow> hex_value (hex_digit n) = Some n"
  by (auto simp add: hex_digit_def hex_value_def Let_def)

lemma hex_value_zero [simp]: "hex_value CHR ''0'' = Some 0"
  by (simp add: hex_value_def)

lemma hex4_escape:
  "(of_char c :: nat) < 32 \<Longrightarrow>
   hex4 CHR ''0'' CHR ''0'' (hex_digit (of_char c div 16)) (hex_digit (of_char c mod 16)) = Some c"
  by (simp add: hex4_def hex_value_digit)

text \<open>What \<open>json_escape\<close> writes for one character, \<open>str_body\<close> reads as that character.\<close>

lemma str_body_escape:
  "str_body (json_escape c @ r) = push c (str_body r)"
proof -
  consider "c = CHR 0x22" | "c = CHR 0x5C" | "c = CHR 0x08" | "c = CHR 0x0C"
    | "c = CHR 0x0A" | "c = CHR 0x0D" | "c = CHR 0x09"
    | "c \<notin> {CHR 0x22, CHR 0x5C, CHR 0x08, CHR 0x0C, CHR 0x0A, CHR 0x0D, CHR 0x09}"
      "(of_char c :: nat) < 32"
    | "c \<notin> {CHR 0x22, CHR 0x5C, CHR 0x08, CHR 0x0C, CHR 0x0A, CHR 0x0D, CHR 0x09}"
      "\<not> (of_char c :: nat) < 32"
    by blast
  then show ?thesis
  proof cases
    case 8
    then show ?thesis by (simp add: json_escape_def hex4_escape)
  next
    case 9
    then show ?thesis by (simp add: json_escape_def)
  qed (simp_all add: json_escape_def unescape_def)
qed

lemma str_body_quoted:
  "str_body (concat (map json_escape s) @ CHR 0x22 # r) = Some (s, r)"
  by (induction s) (simp_all add: str_body_escape push_def)

lemma json_scalar_quoted:
  "json_scalar (json_quote v @ r) = Some (JStr v, r)"
  by (simp add: json_scalar_def json_quote_def str_body_quoted)

lemma skip_ws_simps:
  "skip_ws [] = []"
  "skip_ws (c # cs) = (if is_ws c then skip_ws cs else c # cs)"
  by (simp_all add: skip_ws_def)

text \<open>One member as \<open>json_stringify\<close> lays it out, followed by a comma or the closing brace.\<close>

lemma json_members_member:
  assumes "skip_ws r = c2 # r4"
  shows "json_members (Suc n) (''\<newline>  '' @ json_quote k @ '': '' @ json_quote v @ r) =
     (if c2 = CHR ''}'' then Some ([(k, JStr v)], r4)
      else if c2 = CHR '','' then
        (case json_members n r4 of
           None \<Rightarrow> None
         | Some (kvs, r5) \<Rightarrow> Some ((k, JStr v) # kvs, r5))
      else None)"
proof -
  define r1 where "r1 = '' '' @ json_quote v @ r"
  have t: "''\<newline>  '' @ json_quote k @ '': '' @ json_quote v @ r =
      ''\<newline>  '' @ CHR 0x22 # concat (map json_escape k) @ CHR 0x22 # CHR '':'' # r1"
    by (simp add: json_quote_def[of k] r1_def)
  have a: "skip_ws r1 = json_quote v @ r"
    by (simp add: r1_def skip_ws_simps is_ws_def json_quote_def)
  have b: "json_scalar (skip_ws r1) = Some (JStr v, r)"
    by (simp only: a json_scalar_quoted)
  show ?thesis
    unfolding t
    by (simp add: skip_ws_simps is_ws_def str_body_quoted b assms)
qed

lemma json_members_more:
  "json_members (Suc n) (''\<newline>  '' @ json_quote k @ '': '' @ json_quote v @ '','' @ tl0) =
     (case json_members n tl0 of
        None \<Rightarrow> None
      | Some (kvs, r5) \<Rightarrow> Some ((k, JStr v) # kvs, r5))"
proof -
  have c: "skip_ws ('','' @ tl0) = CHR '','' # tl0"
    by (simp add: skip_ws_simps is_ws_def)
  show ?thesis
    unfolding json_members_member[OF c] by simp
qed

lemma json_members_last:
  "json_members (Suc n) (''\<newline>  '' @ json_quote k @ '': '' @ json_quote v @ ''\<newline>}'' @ r) =
     Some ([(k, JStr v)], r)"
proof -
  have e: "skip_ws (''\<newline>}'' @ r) = CHR ''}'' # r"
    by (simp add: skip_ws_simps is_ws_def)
  show ?thesis
    unfolding json_members_member[OF e] by simp
qed

lemma json_members_three:
  "json_members (Suc (Suc (Suc n)))
     (''\<newline>  '' @ json_quote k1 @ '': '' @ json_quote v1 @ '','' @
      (''\<newline>  '' @ json_quote k2 @ '': '' @ json_quote v2 @ '','' @
      (''\<newline>  '' @ json_quote k3 @ '': '' @ json_quote v3 @ ''\<newline>}'' @ r))) =
   Some ([(k1, JStr v1), (k2, JStr v2), (k3, JStr v3)], r)"
  by (simp only: json_members_more json_members_last option.case prod.case)

lemma json_stringify_three:
  "json_stringify [(k1, JStr v1), (k2, JStr v2), (k3, JStr v3)] @ r =
     CHR ''{'' # (''\<newline>  '' @ json_quote k1 @ '': '' @ json_quote v1 @ '','' @
             (''\<newline>  '' @ json_quote k2 @ '': '' @ json_quote v2 @ '','' @
             (''\<newline>  '' @ json_quote k3 @ '': '' @ json_quote v3 @ ''\<newline>}'' @ r)))"
  by (simp add: json_stringify_def Let_def)

text \<open>Three string members written by \<open>json_stringify\<close> are read back as they were.\<close>

lemma json_parse_three:
  "json_parse (json_stringify [(k1, JStr v1), (k2, JStr v2), (k3, JStr v3)] @ ''\<newline>'') =
     Some [(k1, JStr v1), (k2, JStr v2), (k3, JStr v3)]"
proof -
  define cs where "cs = ''\<newline>  '' @ json_quote k1 @ '': '' @ json_quote v1 @ '','' @
      (''\<newline>  '' @ json_quote k2 @ '': '' @ json_quote v2 @ '','' @
      (''\<newline>  '' @ json_quote k3 @ '': '' @ json_quote v3 @ ''\<newline>}'' @ ''\<newline>''))"
  have "3 \<le> length cs" by (simp add: cs_def)
  then obtain n where n: "length cs = Suc (Suc (Suc n))"
    by (metis Suc_le_D numeral_3_eq_3 Suc_le_mono)
  have m: "json_members (length cs) cs =
      Some ([(k1, JStr v1), (k2, JStr v2), (k3, JStr v3)], ''\<newline>'')"
    unfolding n unfolding cs_def by (rule json_members_three)
  have "\<exists>x. skip_ws cs = CHR 0x22 # x"
    by (simp add: cs_def skip_ws_simps is_ws_def json_quote_def[of k1])
  then have p: "\<not> prefix ''}'' (skip_ws cs)"
    by auto
  have "json_parse (CHR ''{'' # cs) = Some [(k1, JStr v1), (k2, JStr v2), (k3, JStr v3)]"
    by (simp add: json_parse_def skip_ws_simps is_ws_def p m)
  then show ?thesis
    by (simp only: json_stringify_three cs_def)
qed

lemma bind_unit_Return:
  fixes m :: "unit io"
  assumes "fst (bind_io m (\<lambda>_. k) w) = Return ()"
  shows "fst (m w) = Return ()" and "bind_io m (\<lambda>_. k) w = k (snd (m w))"
  using assms by (cases "fst (m w)"; simp add: bind_io_alt)+

lemma generateMetadata_read:
  assumes "fst (generateMetadata env p d f b w) = Return ()"
  shows "read_file (files (snd (generateMetadata env p d f b w))) (path_join [p, ''metadata.json'']) =
         Some (json_stringify [(''domain'', JStr d), (''frontendPort'', JStr f),
                               (''backendPort'', JStr b)] @ ''\<newline>'')"
  using assms
  by (simp add: generateMetadata_def writeJson_def Let_def bind_write_file console_log_def
        read_file_written split: option.splits if_splits)

lemma generation_steps_last:
  assumes "fst (generation_steps env p d f b w) = Return ()"
  shows "\<exists>w2. generation_steps env p d f b w = generateMetadata env p d f b w2"
proof -
  let ?gd = "generateDockerfiles env p"
  let ?gc = "generateDockerCompose env p f b"
  let ?gm = "generateMetadata env p d f b"
  have g: "generation_steps env p d f b w = bind_io ?gd (\<lambda>_. bind_io ?gc (\<lambda>_. ?gm)) w"
    by (simp add: generation_steps_def)
  from assms g have 1: "generation_steps env p d f b w = bind_io ?gc (\<lambda>_. ?gm) (snd (?gd w))"
    using bind_unit_Return(2)[of ?gd "bind_io ?gc (\<lambda>_. ?gm)" w] by simp
  with assms have "bind_io ?gc (\<lambda>_. ?gm) (snd (?gd w)) = ?gm (snd (?gc (snd (?gd w))))"
    using bind_unit_Return(2)[of ?gc ?gm "snd (?gd w)"] by simp
  with 1 show ?thesis by auto
qed

lemma setup_tail_files [simp]: "files (snd (setup_tail env p pm2 w)) = files w"
  by (cases pm2)
     (simp_all add: setup_tail_def bind_io_alt startDockerContainers_eq installPM2_eq
        console_log_def return_io_def)

lemma app_setup_cli_Return_iff:
  assumes "resolved_options env options = (p, d, f, b, pm2)"
  shows "(fst (app_setup_cli env options w) = Return ()) =
         (fst (generation_steps env p d f b w) = Return ())"
  using app_setup_cli_Return[OF assms, of w] app_setup_cli_Throw[OF assms, of w]
    generation_rest(1)[of env p d f b w]
  by (cases "fst (generation_steps env p d f b w)") auto

text \<open>
  C5. When the generation steps of the App Setup Tool return, and so when a run of the
  tool returns, the file \<^verbatim>\<open>metadata.json\<close> of the project directory holds the text that
  \<^verbatim>\<open>JSON.stringify\<close> writes for the three inputs, followed by a newline. That text parses
  as JSON, to an object whose members \<^verbatim>\<open>domain\<close>, \<^verbatim>\<open>frontendPort\<close> and \<^verbatim>\<open>backendPort\<close> are the
  strings that were supplied, character for character: a port stays a string, never a
  number.
\<close>

theorem C5_metadata_reads_back:
  "(fst (generation_steps env p d f b w) = Return () \<longrightarrow>
      read_file (files (snd (generation_steps env p d f b w))) (path_join [p, ''metadata.json'']) =
        Some (json_stringify [(''domain'', JStr d), (''frontendPort'', JStr f),
                              (''backendPort'', JStr b)] @ ''\<newline>'')) \<and>
   (resolved_options env options = (p, d, f, b, pm) \<and>
    fst (app_setup_cli env options w) = Return () \<longrightarrow>
      read_file (files (snd (app_setup_cli env options w))) (path_join [p, ''metadata.json'']) =
        Some (json_stringify [(''domain'', JStr d), (''frontendPort'', JStr f),
                              (''backendPort'', JStr b)] @ ''\<newline>'')) \<and>
   json_parse (json_stringify [(''domain'', JStr d), (''frontendPort'', JStr f),
                               (''backendPort'', JStr b)] @ ''\<newline>'') =
     Some [(''domain'', JStr d), (''frontendPort'', JStr f), (''backendPort'', JStr b)] \<and>
   property (DObject [(''domain'', JStr d), (''frontendPort'', JStr f),
                      (''backendPort'', JStr b)]) ''domain'' = JStr d \<and>
   property (DObject [(''domain'', JStr d), (''frontendPort'', JStr f),
                      (''backendPort'', JStr b)]) ''frontendPort'' = JStr f \<and>
   property (DObject [(''domain'', JStr d), (''frontendPort'', JStr f),
                      (''backendPort'', JStr b)]) ''backendPort'' = JStr b"
proof -
  let ?text = "json_stringify [(''domain'', JStr d), (''frontendPort'', JStr f),
                               (''backendPort'', JStr b)] @ ''\<newline>''"
  have gen: "read_file (files (snd (generation_steps env p d f b w))) (path_join [p, ''metadata.json'']) =
        Some ?text" if r: "fst (generation_steps env p d f b w) = Return ()"
  proof -
    from generation_steps_last[OF r] obtain w2 where
      w2: "generation_steps env p d f b w = generateMetadata env p d f b w2" by blast
    with r have "fst (generateMetadata env p d f b w2) = Return ()" by simp
    from generateMetadata_read[OF this] show ?thesis by (simp only: w2)
  qed
  have run: "read_file (files (snd (app_setup_cli env options w))) (path_join [p, ''metadata.json'']) =
        Some ?text"
    if o: "resolved_options env options = (p, d, f, b, pm)"
      and r: "fst (app_setup_cli env options w) = Return ()"
  proof -
    from r have g: "fst (generation_steps env p d f b w) = Return ()"
      by (simp only: app_setup_cli_Return_iff[OF o])
    show ?thesis
      using gen[OF g] by (simp add: app_setup_cli_Return[OF o g])
  qed
  show ?thesis
    using gen run by (simp add: json_parse_three property_def)
qed

lemma sample_generation:
  "fst (generation_steps (calm DOther) ''.'' (''a'' @ [CHR 0x22, CHR 0x5C, CHR 0x0A, CHR 0x01])
          ''08080'' ''9090'' fresh) = Return ()"
  by code_simp

lemma sample_path: "path_join [''.'', ''metadata.json''] = ''metadata.json''"
  by code_simp

lemma sample_text:
  \<open>json_stringify [(''domain'', JStr (''a'' @ [CHR 0x22, CHR 0x5C, CHR 0x0A, CHR 0x01])),
                   (''frontendPort'', JStr ''08080''), (''backendPort'', JStr ''9090'')] @ ''\<newline>'' =
   ''{\<newline>'' @
   ''  "domain": "a'' @ [CHR 0x5C, CHR 0x22, CHR 0x5C, CHR 0x5C, CHR 0x5C, CHR ''n''] @
                       [CHR 0x5C] @ ''u0001",\<newline>'' @
   ''  "frontendPort": "08080",\<newline>'' @
   ''  "backendPort": "9090"\<newline>'' @
   ''}\<newline>''\<close>
  by code_simp

theorem C5_metadata_reads_back_witness:
  \<open>fst (generation_steps (calm DOther) ''.'' (''a'' @ [CHR 0x22, CHR 0x5C, CHR 0x0A, CHR 0x01])
          ''08080'' ''9090'' fresh) = Return () \<and>
   read_file (files (snd (generation_steps (calm DOther) ''.''
                            (''a'' @ [CHR 0x22, CHR 0x5C, CHR 0x0A, CHR 0x01])
                            ''08080'' ''9090'' fresh))) ''metadata.json'' =
     Some (''{\<newline>'' @
           ''  "domain": "a'' @ [CHR 0x5C, CHR 0x22, CHR 0x5C, CHR 0x5C, CHR 0x5C, CHR ''n''] @
                               [CHR 0x5C] @ ''u0001",\<newline>'' @
           ''  "frontendPort": "08080",\<newline>'' @
           ''  "backendPort": "9090"\<newline>'' @
           ''}\<newline>'') \<and>
   json_parse (''{\<newline>'' @
           ''  "domain": "a'' @ [CHR 0x5C, CHR 0x22, CHR 0x5C, CHR 0x5C, CHR 0x5C, CHR ''n''] @
                               [CHR 0x5C] @ ''u0001",\<newline>'' @
           ''  "frontendPort": "08080",\<newline>'' @
           ''  "backendPort": "9090"\<newline>'' @
           ''}\<newline>'') =
     Some [(''domain'', JStr (''a'' @ [CHR 0x22, CHR 0x5C, CHR 0x0A, CHR 0x01])),
           (''frontendPort'', JStr ''08080''), (''backendPort'', JStr ''9090'')]\<close>
  using C5_metadata_reads_back[where env="calm DOther" and p="''.''"
      and d="''a'' @ [CHR 0x22, CHR 0x5C, CHR 0x0A, CHR 0x01]" and f="''08080''"
      and b="''9090''" and w=fresh and options="setup_in ''.''" and pm=True]
    sample_generation
  unfolding sample_path sample_text
  by blast

section \<open>The files of the App Setup Tool\<close>

lemma console_log_apply: "console_log a w = (Return (), w\<lparr>stdout := stdout w @ [a]\<rparr>)"
  by (simp add: console_log_def)

text \<open>Four files written one after the other, at four places none of which is a link.\<close>

lemma four_writes:
  assumes "distinct [q1, q2, q3, q4]"
    and "\<forall>q \<in> set [q1, q2, q3, q4]. \<not> is_symlink (files w q)"
    and "\<forall>q \<in> set [q1, q2, q3, q4]. canonical q = q"
    and "m = bind_io (write_file env c1 q1 t1) (\<lambda>_.
             bind_io (write_file env c2 q2 t2) (\<lambda>_.
             bind_io (console_log a1) (\<lambda>_.
             bind_io (write_file env c3 q3 t3) (\<lambda>_.
             bind_io (console_log a2) (\<lambda>_.
             bind_io (write_file env c4 q4 t4) (\<lambda>_.
             console_log a3))))))"
    and "fst (m w) = Return ()"
  shows "read_file (files (snd (m w))) q1 = Some t1"
    and "read_file (files (snd (m w))) q2 = Some t2"
    and "read_file (files (snd (m w))) q3 = Some t3"
    and "read_file (files (snd (m w))) q4 = Some t4"
proof -
  have f: "files (snd (m w)) =
      (files w)(q1 \<mapsto> File t1, q2 \<mapsto> File t2, q3 \<mapsto> File t3, q4 \<mapsto> File t4) \<and>
      \<not> names_directory q1 \<and> \<not> names_directory q2 \<and>
      \<not> names_directory q3 \<and> \<not> names_directory q4"
    using assms
    by (simp add: bind_write_file bind_console_log console_log_apply resolve_not_link
          split: option.splits if_splits)
  show "read_file (files (snd (m w))) q1 = Some t1"
    "read_file (files (snd (m w))) q2 = Some t2"
    "read_file (files (snd (m w))) q3 = Some t3"
    "read_file (files (snd (m w))) q4 = Some t4"
    using assms(1,3) f by (simp_all add: read_file_def resolve_not_link is_symlink_def)
qed

lemma suffix_sublist: "suffix (x @ r) t \<Longrightarrow> sublist x t"
  by (auto simp: suffix_def sublist_def)

lemma parse_mapping_other: \<open>\<not> prefix ''- "'' l \<Longrightarrow> parse_mapping l = None\<close>
  by (simp add: parse_mapping_def)

lemma parse_mapping_item:
  assumes "CHR '':'' \<notin> set c"
  shows \<open>parse_mapping (''- "'' @ h @ '':'' @ c @ ''"'') = Some (h, c)\<close>
proof -
  have b: \<open>butlast (drop 3 (''- "'' @ h @ '':'' @ c @ ''"'')) = h @ '':'' @ c\<close>
    by (simp add: butlast_append)
  have t: "takeWhile (\<lambda>x. x \<noteq> CHR '':'') (rev c @ CHR '':'' # rev h) = rev c"
    using assms by (subst takeWhile_append2) auto
  have d: "dropWhile (\<lambda>x. x \<noteq> CHR '':'') (rev c @ CHR '':'' # rev h) = CHR '':'' # rev h"
    using assms by (subst dropWhile_append2) auto
  show ?thesis
    unfolding parse_mapping_def b Let_def
    by (simp add: t d)
qed

lemma parse_mapping_ports:
  \<open>parse_mapping (CHR ''-'' # CHR '' '' # CHR 0x22 # h @ '':3000"'') = Some (h, ''3000'')\<close>
  \<open>parse_mapping (CHR ''-'' # CHR '' '' # CHR 0x22 # h @ '':5000"'') = Some (h, ''5000'')\<close>
  using parse_mapping_item[of "''3000''" h] parse_mapping_item[of "''5000''" h] by simp_all

lemma generateDockerCompose_shape:
  \<open>\<exists>t. generateDockerCompose env p f b =
         bind_io (write_file env OutputFile (path_join [p, ''docker-compose.yml'']) t)
           (\<lambda>_. console_log [Str ''docker-compose.yml generated successfully.'']) \<and>
       (\<exists>r. suffix (''      - "'' @ f @ '':3000"\<newline>'' @ r) t) \<and>
       (\<exists>r. suffix (''      - "'' @ b @ '':5000"\<newline>'' @ r) t) \<and>
       (single_line f \<and> single_line b \<longrightarrow> port_mappings t = [(f, ''3000''), (b, ''5000'')])\<close>
  unfolding generateDockerCompose_def Let_def outputFile_def
  apply (intro exI conjI)
     apply (rule refl)
    apply (rule suffix_order.refl | rule suffix_appendI)+
  apply (simp add: port_mappings_def text_lines_def split_lines_single
      parse_mapping_ports parse_mapping_other)
  done

lemma generateDockerfiles_shape:
  \<open>\<exists>t1 t2. generateDockerfiles env p =
         bind_io (write_file env OutputFile (path_join [p, ''frontend'', ''Dockerfile'']) t1) (\<lambda>_.
         bind_io (write_file env OutputFile (path_join [p, ''backend'', ''Dockerfile'']) t2) (\<lambda>_.
         console_log [Str ''Dockerfiles generated successfully.''])) \<and>
       exposed t1 = [''3000''] \<and> exposed t2 = [''5000'']\<close>
  unfolding generateDockerfiles_def Let_def outputFile_def
  apply (intro exI conjI)
    apply (rule refl)
   apply code_simp
  apply code_simp
  done

text \<open>
  C4. When the generation steps return and none of the four generated paths was a
  symbolic link, then whatever the two ports are: the frontend Dockerfile has exactly
  one \<^verbatim>\<open>EXPOSE\<close> line, for 3000, and the backend Dockerfile exactly one, for 5000; the
  compose file holds the items \<^verbatim>\<open>- "<frontendPort>:3000"\<close> and \<^verbatim>\<open>- "<backendPort>:5000"\<close>,
  and when the two ports hold no line break its port mappings are exactly these two,
  in this order, with the supplied values as host side.
\<close>

theorem C4_ports_of_generated_files:
  assumes "fst (generation_steps env p d f b w) = Return ()"
    and "\<forall>q \<in> set (generated_paths p). \<not> is_symlink (files w q)"
  shows
  \<open>(\<exists>t. read_file (files (snd (generation_steps env p d f b w)))
           (path_join [p, ''frontend'', ''Dockerfile'']) = Some t \<and>
        exposed t = [''3000'']) \<and>
   (\<exists>t. read_file (files (snd (generation_steps env p d f b w)))
           (path_join [p, ''backend'', ''Dockerfile'']) = Some t \<and>
        exposed t = [''5000'']) \<and>
   (\<exists>t. read_file (files (snd (generation_steps env p d f b w)))
           (path_join [p, ''docker-compose.yml'']) = Some t \<and>
        sublist (''      - "'' @ f @ '':3000"\<newline>'') t \<and>
        sublist (''      - "'' @ b @ '':5000"\<newline>'') t \<and>
        (single_line f \<and> single_line b \<longrightarrow>
           port_mappings t = [(f, ''3000''), (b, ''5000'')]))\<close>
proof -
  from generateDockerfiles_shape[of env p] obtain t1 t2 where
    gd: "generateDockerfiles env p =
         bind_io (write_file env OutputFile (path_join [p, ''frontend'', ''Dockerfile'']) t1) (\<lambda>_.
         bind_io (write_file env OutputFile (path_join [p, ''backend'', ''Dockerfile'']) t2) (\<lambda>_.
         console_log [Str ''Dockerfiles generated successfully.'']))"
    and e1: "exposed t1 = [''3000'']" and e2: "exposed t2 = [''5000'']"
    by blast
  from generateDockerCompose_shape[of env p f b] obtain t3 where
    gc: "generateDockerCompose env p f b =
         bind_io (write_file env OutputFile (path_join [p, ''docker-compose.yml'']) t3)
           (\<lambda>_. console_log [Str ''docker-compose.yml generated successfully.''])"
    and s1: \<open>\<exists>r. suffix (''      - "'' @ f @ '':3000"\<newline>'' @ r) t3\<close>
    and s2: \<open>\<exists>r. suffix (''      - "'' @ b @ '':5000"\<newline>'' @ r) t3\<close>
    and pm: \<open>single_line f \<and> single_line b \<longrightarrow> port_mappings t3 = [(f, ''3000''), (b, ''5000'')]\<close>
    by blast
  define t4 where "t4 = json_stringify [(''domain'', JStr d), (''frontendPort'', JStr f),
                                        (''backendPort'', JStr b)] @ ''\<newline>''"
  have m: "generation_steps env p d f b =
      bind_io (write_file env OutputFile (path_join [p, ''frontend'', ''Dockerfile'']) t1) (\<lambda>_.
      bind_io (write_file env OutputFile (path_join [p, ''backend'', ''Dockerfile'']) t2) (\<lambda>_.
      bind_io (console_log [Str ''Dockerfiles generated successfully.'']) (\<lambda>_.
      bind_io (write_file env OutputFile (path_join [p, ''docker-compose.yml'']) t3) (\<lambda>_.
      bind_io (console_log [Str ''docker-compose.yml generated successfully.'']) (\<lambda>_.
      bind_io (write_file env WriteJson (path_join [p, ''metadata.json'']) t4) (\<lambda>_.
      console_log [Str ''metadata.json generated successfully.'']))))))"
    unfolding generation_steps_def gd gc generateMetadata_def writeJson_def Let_def
      bind_io_assoc t4_def ..
  have l: "\<forall>q \<in> set [path_join [p, ''frontend'', ''Dockerfile''],
                       path_join [p, ''backend'', ''Dockerfile''],
                       path_join [p, ''docker-compose.yml''],
                       path_join [p, ''metadata.json'']]. \<not> is_symlink (files w q)"
    using assms(2) by (simp add: generated_paths_def)
  have c: "\<forall>q \<in> set [path_join [p, ''frontend'', ''Dockerfile''],
                       path_join [p, ''backend'', ''Dockerfile''],
                       path_join [p, ''docker-compose.yml''],
                       path_join [p, ''metadata.json'']]. canonical q = q"
    by (simp add: generated_paths_canonical)
  note rd = four_writes[OF generated_paths_distinct l c m assms(1)]
  from s1 s2 have sub: \<open>sublist (''      - "'' @ f @ '':3000"\<newline>'') t3\<close>
    \<open>sublist (''      - "'' @ b @ '':5000"\<newline>'') t3\<close>
    using suffix_sublist[of \<open>''      - "'' @ f @ '':3000"\<newline>''\<close>]
      suffix_sublist[of \<open>''      - "'' @ b @ '':5000"\<newline>''\<close>]
    by auto
  show ?thesis
    using rd(1,2,3) e1 e2 sub pm by blast
qed

lemma srv_paths:
  "path_join [''/srv/app'', ''frontend'', ''Dockerfile''] = ''/srv/app/frontend/Dockerfile''"
  "path_join [''/srv/app'', ''backend'', ''Dockerfile''] = ''/srv/app/backend/Dockerfile''"
  "path_join [''/srv/app'', ''docker-compose.yml''] = ''/srv/app/docker-compose.yml''"
  by code_simp+

theorem C4_ports_of_generated_files_witness:
  "fst (generation_steps hostile ''/srv/app'' ''example.com'' ''8080'' ''9090'' fresh) = Return () \<and>
   map (files fresh) (generated_paths ''/srv/app'') = [None, None, None, None] \<and>
   (\<exists>t. read_file (files (snd (generation_steps hostile ''/srv/app'' ''example.com''
                                  ''8080'' ''9090'' fresh)))
           ''/srv/app/frontend/Dockerfile'' = Some t \<and>
        exposed t = [''3000'']) \<and>
   (\<exists>t. read_file (files (snd (generation_steps hostile ''/srv/app'' ''example.com''
                                  ''8080'' ''9090'' fresh)))
           ''/srv/app/backend/Dockerfile'' = Some t \<and>
        exposed t = [''5000'']) \<and>
   (\<exists>t. read_file (files (snd (generation_steps hostile ''/srv/app'' ''example.com''
                                  ''8080'' ''9090'' fresh)))
           ''/srv/app/docker-compose.yml'' = Some t \<and>
        port_mappings t = [(''8080'', ''3000''), (''9090'', ''5000'')])"
proof -
  have h: "\<forall>q \<in> set (generated_paths ''/srv/app''). \<not> is_symlink (files fresh q)"
    by (simp add: fresh_def is_symlink_def)
  have sl: "single_line ''8080''" "single_line ''9090''"
    by (simp_all add: single_line_def)
  have n: "map (files fresh) (generated_paths ''/srv/app'') = [None, None, None, None]"
    by (simp add: fresh_def generated_paths_def)
  from C4_ports_of_generated_files[OF gen_srv h] sl gen_srv n show ?thesis
    unfolding srv_paths by blast
qed

end
